theory Spec2Isabelle
  imports Main "HOL-Library.Sublist" "HOL-Library.AList"
begin

section \<open>JavaScript values and strings\<close>

text \<open>
  The scripts are JavaScript. A string is modelled as a list of 8-bit code units
  (\<^typ>\<open>string\<close>); the classifier model is exact for ASCII text, text outside ASCII is
  carried along unchanged. Outside ASCII the language differs in three places: its
  \<open>toLowerCase\<close> maps the Kelvin sign U+212A to \<open>k\<close>, its \<open>.\<close> also stops at the line
  separators U+2028 and U+2029, and its \<open>substring\<close> counts UTF-16 code units.
  A property that may be missing is a \<open>jsval\<close>: a template literal renders \<open>undefined\<close>
  as the text \<open>undefined\<close> and \<open>null\<close> as \<open>null\<close>.
\<close>

datatype jsval = JUndefined | JNull | JBool bool | JStr string

fun ToString :: "jsval \<Rightarrow> string" where
  "ToString JUndefined = ''undefined''"
| "ToString JNull = ''null''"
| "ToString (JBool b) = (if b then ''true'' else ''false'')"
| "ToString (JStr s) = s"

fun truthy :: "jsval \<Rightarrow> bool" where
  "truthy JUndefined = False"
| "truthy JNull = False"
| "truthy (JBool b) = b"
| "truthy (JStr s) = (s \<noteq> [])"

text \<open>Case mapping of one code unit: the 26 ASCII letters, everything else unchanged.\<close>

definition lower_letters :: string where
  "lower_letters = ''abcdefghijklmnopqrstuvwxyz''"

definition upper_letters :: string where
  "upper_letters = ''ABCDEFGHIJKLMNOPQRSTUVWXYZ''"

definition toLowerCase_char :: "char \<Rightarrow> char" where
  "toLowerCase_char c =
     (case map_of (zip upper_letters lower_letters) c of Some l \<Rightarrow> l | None \<Rightarrow> c)"

definition toUpperCase_char :: "char \<Rightarrow> char" where
  "toUpperCase_char c =
     (case map_of (zip lower_letters upper_letters) c of Some u \<Rightarrow> u | None \<Rightarrow> c)"

definition toLowerCase :: "string \<Rightarrow> string" where
  "toLowerCase s = map toLowerCase_char s"

section \<open>Regular expressions\<close>

text \<open>
  Every pattern of the scripts is an alternation of branches, a branch being literal
  words joined by \<open>.*\<close>: \<open>/build.*fail|compilation.*error|bundle.*fail/i\<close> is the branch
  list \<open>[[build, fail], [compilation, error], [bundle, fail]]\<close> with the flag \<open>i\<close>.
  A RegExp object is mutable: with the flag \<open>g\<close>, \<open>test\<close> starts at \<open>lastIndex\<close> and
  writes it back. The matcher is the backtracking one of the language: branches in
  order, \<open>.*\<close> greedy over characters that are not line terminators, leftmost start.
\<close>

record regexp =
  branches :: "string list list"
  ignoreCase :: bool
  global :: bool
  lastIndex :: nat

definition Canonicalize :: "bool \<Rightarrow> char \<Rightarrow> char" where
  "Canonicalize ic c = (if ic then toUpperCase_char c else c)"

definition isLineTerminator :: "char \<Rightarrow> bool" where
  "isLineTerminator c = (c = CHR 0x0A \<or> c = CHR 0x0D)"

text \<open>A literal word matches at the start of the input.\<close>

fun lit_match :: "bool \<Rightarrow> string \<Rightarrow> string \<Rightarrow> bool" where
  "lit_match ic [] s = True"
| "lit_match ic (p # ps) [] = False"
| "lit_match ic (p # ps) (c # cs) =
     (Canonicalize ic p = Canonicalize ic c \<and> lit_match ic ps cs)"

text \<open>
  \<open>gap k s\<close> is \<open>.*\<close> followed by the continuation \<open>k\<close>: the longest run of
  characters first, then shorter ones. The result is the number of characters matched.
\<close>

fun gap :: "(string \<Rightarrow> nat option) \<Rightarrow> string \<Rightarrow> nat option" where
  "gap k [] = k []"
| "gap k (c # cs) =
     (if isLineTerminator c then k (c # cs)
      else (case gap k cs of Some n \<Rightarrow> Some (Suc n) | None \<Rightarrow> k (c # cs)))"

primrec branch_match :: "bool \<Rightarrow> string list \<Rightarrow> string \<Rightarrow> nat option" where
  "branch_match ic [] = (\<lambda>s. Some 0)"
| "branch_match ic (p # qs) =
     (\<lambda>s. if lit_match ic p s
          then (if qs = [] then Some (length p)
                else map_option (\<lambda>n. length p + n)
                       (gap (branch_match ic qs) (drop (length p) s)))
          else None)"

fun alts_match :: "bool \<Rightarrow> string list list \<Rightarrow> string \<Rightarrow> nat option" where
  "alts_match ic [] s = None"
| "alts_match ic (b # bs) s =
     (case branch_match ic b s of Some n \<Rightarrow> Some n | None \<Rightarrow> alts_match ic bs s)"

text \<open>The leftmost match: its start offset and its length.\<close>

fun search :: "bool \<Rightarrow> string list list \<Rightarrow> string \<Rightarrow> (nat \<times> nat) option" where
  "search ic bs [] = map_option (\<lambda>n. (0, n)) (alts_match ic bs [])"
| "search ic bs (c # cs) =
     (case alts_match ic bs (c # cs) of
        Some n \<Rightarrow> Some (0, n)
      | None \<Rightarrow> map_option (\<lambda>(i, n). (Suc i, n)) (search ic bs cs))"

definition test :: "regexp \<Rightarrow> string \<Rightarrow> bool \<times> regexp" where
  "test r s =
     (let i = (if global r then lastIndex r else 0) in
      if length s < i then (False, if global r then r\<lparr>lastIndex := 0\<rparr> else r)
      else (case search (ignoreCase r) (branches r) (drop i s) of
              None \<Rightarrow> (False, if global r then r\<lparr>lastIndex := 0\<rparr> else r)
            | Some (k, n) \<Rightarrow> (True, if global r then r\<lparr>lastIndex := i + k + n\<rparr> else r)))"

definition regexp_i :: "string list list \<Rightarrow> regexp" where
  "regexp_i bs = \<lparr>branches = bs, ignoreCase = True, global = False, lastIndex = 0\<rparr>"

section \<open>todo-generator.js: the classifier of the TODO generator\<close>

record failurePatterns_t =
  fp_test :: regexp
  fp_build :: regexp
  fp_security :: regexp
  fp_performance :: regexp
  fp_crisis :: regexp

record TodoGenerator =
  failurePatterns :: failurePatterns_t

text \<open>The constructor (\<open>todoDir\<close>, a path, plays no part in classification).\<close>

definition TodoGenerator_new :: TodoGenerator where
  "TodoGenerator_new = \<lparr>failurePatterns = \<lparr>
     fp_test = regexp_i [[''test'', ''fail''], [''fail'', ''test''],
                         [''error'', ''test''], [''test'', ''error'']],
     fp_build = regexp_i [[''build'', ''fail''], [''compilation'', ''error''],
                          [''bundle'', ''fail'']],
     fp_security = regexp_i [[''security''], [''vulnerability''], [''exploit''], [''unsafe'']],
     fp_performance = regexp_i [[''timeout''], [''slow''], [''performance''],
                                [''memory'', ''leak'']],
     fp_crisis = regexp_i [[''crisis''], [''988''], [''741741''], [''emergency''],
                           [''hotline'']]\<rparr>\<rparr>"

text \<open>
  A failure record as the classifier reads it; each property is a string, a boolean,
  \<open>null\<close> or missing.
\<close>

record failure =
  f_error :: jsval
  f_message :: jsval
  f_name :: jsval
  f_severity :: jsval
  f_blocking :: jsval

text \<open>\<open>this.failurePatterns.X.test(errorText)\<close>: the result and the generator after the call.\<close>

definition test_crisis :: "TodoGenerator \<Rightarrow> string \<Rightarrow> bool \<times> TodoGenerator" where
  "test_crisis g s =
     (let (m, r) = test (fp_crisis (failurePatterns g)) s
      in (m, g\<lparr>failurePatterns := (failurePatterns g)\<lparr>fp_crisis := r\<rparr>\<rparr>))"

definition test_security :: "TodoGenerator \<Rightarrow> string \<Rightarrow> bool \<times> TodoGenerator" where
  "test_security g s =
     (let (m, r) = test (fp_security (failurePatterns g)) s
      in (m, g\<lparr>failurePatterns := (failurePatterns g)\<lparr>fp_security := r\<rparr>\<rparr>))"

definition test_performance :: "TodoGenerator \<Rightarrow> string \<Rightarrow> bool \<times> TodoGenerator" where
  "test_performance g s =
     (let (m, r) = test (fp_performance (failurePatterns g)) s
      in (m, g\<lparr>failurePatterns := (failurePatterns g)\<lparr>fp_performance := r\<rparr>\<rparr>))"

definition test_build :: "TodoGenerator \<Rightarrow> string \<Rightarrow> bool \<times> TodoGenerator" where
  "test_build g s =
     (let (m, r) = test (fp_build (failurePatterns g)) s
      in (m, g\<lparr>failurePatterns := (failurePatterns g)\<lparr>fp_build := r\<rparr>\<rparr>))"

definition priorityText :: "failure \<Rightarrow> string" where
  "priorityText f = toLowerCase (ToString (f_error f) @ '' '' @ ToString (f_message f))"

definition determinePriority :: "TodoGenerator \<Rightarrow> failure \<Rightarrow> string \<times> TodoGenerator" where
  "determinePriority g0 f =
     (let errorText = priorityText f;
          (m1, g1) = test_crisis g0 errorText in
      if m1 then (''critical'', g1) else
      let (m2, g2) = test_security g1 errorText in
      if m2 then (''critical'', g2) else
      if f_severity f = JStr ''critical'' \<or> truthy (f_blocking f) then (''high'', g2) else
      let (m3, g3) = test_performance g2 errorText in
      if m3 then (''medium'', g3) else (''low'', g3))"

definition categoryText :: "failure \<Rightarrow> string" where
  "categoryText f =
     toLowerCase (ToString (f_error f) @ '' '' @ ToString (f_message f) @ '' '' @
                  ToString (f_name f))"

definition determineCategory :: "TodoGenerator \<Rightarrow> failure \<Rightarrow> string \<times> TodoGenerator" where
  "determineCategory g0 f =
     (let errorText = categoryText f;
          (m1, g1) = test_crisis g0 errorText in
      if m1 then (''crisis-system'', g1) else
      let (m2, g2) = test_security g1 errorText in
      if m2 then (''security'', g2) else
      let (m3, g3) = test_performance g2 errorText in
      if m3 then (''performance'', g3) else
      let (m4, g4) = test_build g3 errorText in
      if m4 then (''build'', g4) else (''general'', g4))"

text \<open>
  \<open>generateFromTestFailure\<close> classifies each failure by the two calls in this order
  (\<open>const priority = ...; const category = ...\<close>).
\<close>

definition classify :: "TodoGenerator \<Rightarrow> failure \<Rightarrow> (string \<times> string) \<times> TodoGenerator" where
  "classify g0 f =
     (let (priority, g1) = determinePriority g0 f;
          (category, g2) = determineCategory g1 f
      in ((priority, category), g2))"

text \<open>
  The reading of "first match wins" used to state the order of the checks: an ordered
  list of (condition, result) pairs evaluated in sequence, with a default.
\<close>

fun first_match :: "(bool \<times> 'a) list \<Rightarrow> 'a \<Rightarrow> 'a" where
  "first_match [] d = d"
| "first_match ((c, r) # rest) d = (if c then r else first_match rest d)"

text \<open>A pattern matches somewhere in a text (what \<open>test\<close> answers without the flag \<open>g\<close>).\<close>

definition matches :: "regexp \<Rightarrow> string \<Rightarrow> bool" where
  "matches r s = (search (ignoreCase r) (branches r) s \<noteq> None)"

definition absent_or_empty :: "jsval \<Rightarrow> bool" where
  "absent_or_empty v = (v = JUndefined \<or> v = JNull \<or> v = JStr [])"

section \<open>email-bug-monitor.js: the mail monitor\<close>

text \<open>\<open>MONITOR_CONFIG.patterns\<close>; the fields carry the prefix \<open>pat_\<close>.\<close>

record patterns_t =
  pat_bug :: regexp
  pat_critical :: regexp
  pat_security :: regexp
  pat_performance :: regexp

definition MONITOR_CONFIG_patterns :: patterns_t where
  "MONITOR_CONFIG_patterns = \<lparr>
     pat_bug = regexp_i [[''bug''], [''issue''], [''problem''], [''error''], [''crash''],
                         [''fail'']],
     pat_critical = regexp_i [[''critical''], [''urgent''], [''emergency''], [''crisis''],
                              [''down'']],
     pat_security = regexp_i [[''security''], [''vulnerability''], [''exploit''],
                              [''breach'']],
     pat_performance = regexp_i [[''slow''], [''lag''], [''freeze''], [''performance''],
                                 [''timeout'']]\<rparr>"

text \<open>
  A parsed mail as \<open>processEmail\<close> reads it: each field is a string or missing
  (\<open>date\<close> and \<open>attachments\<close> are copied into the report and read by nothing else).
\<close>

record parsed_email =
  m_from_text :: "string option"
  m_subject :: "string option"
  m_text :: "string option"
  m_html :: "string option"

text \<open>\<open>x || d\<close> for an optional string: a missing or empty \<open>x\<close> gives \<open>d\<close>.\<close>

definition or_else :: "string option \<Rightarrow> string \<Rightarrow> string" where
  "or_else x d = (case x of None \<Rightarrow> d | Some s \<Rightarrow> if s = [] then d else s)"

text \<open>
  The records the monitor writes. Creation dates, the attachment list and the assignee
  (always \<open>null\<close>) are left out: nothing reads them.
\<close>

record bugReport =
  br_id :: string
  br_from :: string
  br_subject :: string
  br_body :: string
  br_priority :: string
  br_category :: string
  br_status :: string

record todo =
  td_id :: string
  td_title :: string
  td_description :: string
  td_priority :: string
  td_category :: string
  td_status :: string
  td_bugReportId :: string
  td_labels :: "string list"

record ack =
  ack_to :: string
  ack_subject :: string
  ack_bugId :: string
  ack_priority :: string
  ack_category :: string

record notification =
  n_bugId :: string
  n_title :: string
  n_priority :: string
  n_todoId :: string

datatype file_content = BugReportJson bugReport | TodoJson todo | AckJson ack

text \<open>
  What the monitor can change: its pattern objects, its list of reports, the files on
  disk (path and content; writing a path again replaces the file) and the calls it
  makes to \<open>emailService.sendNotification\<close>. The file system is taken to accept every
  write.
\<close>

record monitor =
  patterns :: patterns_t
  bugReports :: "bugReport list"
  disk :: "(string \<times> file_content) list"
  notified :: "(string \<times> notification) list"

definition writeFile :: "string \<Rightarrow> file_content \<Rightarrow> monitor \<Rightarrow> monitor" where
  "writeFile path c w = w\<lparr>disk := AList.update path c (disk w)\<rparr>"

definition saveBugReport :: "bugReport \<Rightarrow> monitor \<Rightarrow> monitor" where
  "saveBugReport b w =
     (let w1 = writeFile (''bug-reports/'' @ br_id b @ ''.json'') (BugReportJson b) w
      in w1\<lparr>bugReports := bugReports w1 @ [b]\<rparr>)"

definition createTodoFromBug :: "bugReport \<Rightarrow> monitor \<Rightarrow> monitor" where
  "createTodoFromBug b w =
     (let t = \<lparr>td_id = ''TODO-'' @ br_id b,
                td_title = ''Fix: '' @ br_subject b,
                td_description = take 500 (br_body b),
                td_priority = br_priority b,
                td_category = br_category b,
                td_status = ''pending'',
                td_bugReportId = br_id b,
                td_labels = [''bug'', ''auto-generated'', br_category b]\<rparr>;
          w1 = writeFile (''todos/'' @ td_id t @ ''.json'') (TodoJson t) w
      in w1\<lparr>notified := notified w1 @
             [(''bug_report'', \<lparr>n_bugId = br_id b, n_title = br_subject b,
                                 n_priority = br_priority b, n_todoId = td_id t\<rparr>)]\<rparr>)"

definition sendAcknowledgment :: "bugReport \<Rightarrow> monitor \<Rightarrow> monitor" where
  "sendAcknowledgment b w =
     writeFile (''bug-reports/acknowledgments/'' @ br_id b @ ''-ack.json'')
       (AckJson \<lparr>ack_to = br_from b,
                 ack_subject = ''RE: '' @ br_subject b @ '' - Bug Report Received'',
                 ack_bugId = br_id b, ack_priority = br_priority b,
                 ack_category = br_category b\<rparr>) w"

text \<open>\<open>MONITOR_CONFIG.patterns.X.test(content)\<close>: the result and the monitor after it.\<close>

definition test_pat_critical :: "monitor \<Rightarrow> string \<Rightarrow> bool \<times> monitor" where
  "test_pat_critical w s =
     (let (m, r) = test (pat_critical (patterns w)) s
      in (m, w\<lparr>patterns := (patterns w)\<lparr>pat_critical := r\<rparr>\<rparr>))"

definition test_pat_security :: "monitor \<Rightarrow> string \<Rightarrow> bool \<times> monitor" where
  "test_pat_security w s =
     (let (m, r) = test (pat_security (patterns w)) s
      in (m, w\<lparr>patterns := (patterns w)\<lparr>pat_security := r\<rparr>\<rparr>))"

definition test_pat_performance :: "monitor \<Rightarrow> string \<Rightarrow> bool \<times> monitor" where
  "test_pat_performance w s =
     (let (m, r) = test (pat_performance (patterns w)) s
      in (m, w\<lparr>patterns := (patterns w)\<lparr>pat_performance := r\<rparr>\<rparr>))"

definition test_pat_bug :: "monitor \<Rightarrow> string \<Rightarrow> bool \<times> monitor" where
  "test_pat_bug w s =
     (let (m, r) = test (pat_bug (patterns w)) s
      in (m, w\<lparr>patterns := (patterns w)\<lparr>pat_bug := r\<rparr>\<rparr>))"

text \<open>The text the monitor classifies: the defaulted subject and body, lowercased.\<close>

definition content :: "parsed_email \<Rightarrow> string" where
  "content email =
     toLowerCase (or_else (m_subject email) ''No subject'' @ '' '' @
                  or_else (m_text email) (or_else (m_html email) []))"

text \<open>
  \<open>processEmail\<close>; \<open>bid\<close> is what \<open>generateBugId\<close> returned (a time stamp and random
  digits). The result is the final value of the local \<open>bugReport\<close> and the monitor.
\<close>

definition processEmail :: "string \<Rightarrow> parsed_email \<Rightarrow> monitor \<Rightarrow> bugReport \<times> monitor" where
  "processEmail bid email w0 =
     (let b0 = \<lparr>br_id = bid,
                 br_from = or_else (m_from_text email) ''Unknown'',
                 br_subject = or_else (m_subject email) ''No subject'',
                 br_body = or_else (m_text email) (or_else (m_html email) []),
                 br_priority = ''normal'',
                 br_category = ''general'',
                 br_status = ''new''\<rparr>;
          c = toLowerCase (br_subject b0 @ '' '' @ br_body b0);
          (b1, w3) =
            (let (m1, w1) = test_pat_critical w0 c in
             if m1 then (b0\<lparr>br_priority := ''critical''\<rparr>, w1) else
             let (m2, w2) = test_pat_security w1 c in
             if m2 then (b0\<lparr>br_priority := ''high'', br_category := ''security''\<rparr>, w2) else
             let (m3, w3) = test_pat_performance w2 c in
             if m3 then (b0\<lparr>br_category := ''performance''\<rparr>, w3) else (b0, w3));
          (m4, w4) = test_pat_bug w3 c
      in if m4 then (b1, sendAcknowledgment b1 (createTodoFromBug b1 (saveBugReport b1 w4)))
         else (b1, w4))"

definition EmailBugMonitor_new :: monitor where
  "EmailBugMonitor_new =
     \<lparr>patterns = MONITOR_CONFIG_patterns, bugReports = [], disk = [], notified = []\<rparr>"

section \<open>email-notifications.js: the notification dispatcher\<close>

definition EMAIL_CONFIG_recipient :: string where
  "EMAIL_CONFIG_recipient = ''exiledev8668@gmail.com''"

definition EMAIL_CONFIG_from :: string where
  "EMAIL_CONFIG_from = ''secondchance.notifications@gmail.com''"

definition EMAIL_CONFIG_subject_prefix :: string where
  "EMAIL_CONFIG_subject_prefix = ''[Second Chance]''"

record template =
  t_subject :: string
  t_priority :: string

text \<open>
  \<open>TEMPLATES\<close>, its own properties in order. The pictographs of the subjects are
  written as their UTF-8 bytes.
\<close>

definition TEMPLATES :: "(string \<times> template) list" where
  "TEMPLATES =
     [(''test_results'', \<lparr>t_subject = ''Test Results'', t_priority = ''normal''\<rparr>),
      (''test_failure'',
         \<lparr>t_subject = [CHR 0xE2, CHR 0x9A, CHR 0xA0, CHR 0xEF, CHR 0xB8, CHR 0x8F] @
                       '' Test Failure Detected'',
          t_priority = ''high''\<rparr>),
      (''build_success'',
         \<lparr>t_subject = [CHR 0xE2, CHR 0x9C, CHR 0x85] @ '' Build Successful'',
          t_priority = ''normal''\<rparr>),
      (''build_failure'',
         \<lparr>t_subject = [CHR 0xE2, CHR 0x9D, CHR 0x8C] @ '' Build Failed'',
          t_priority = ''high''\<rparr>),
      (''security_alert'',
         \<lparr>t_subject = [CHR 0xF0, CHR 0x9F, CHR 0x9A, CHR 0xA8] @ '' Security Alert'',
          t_priority = ''urgent''\<rparr>),
      (''performance_issue'',
         \<lparr>t_subject = [CHR 0xE2, CHR 0x9A, CHR 0xA1] @ '' Performance Issue Detected'',
          t_priority = ''high''\<rparr>),
      (''bug_report'',
         \<lparr>t_subject = [CHR 0xF0, CHR 0x9F, CHR 0x90, CHR 0x9B] @ '' Bug Report Received'',
          t_priority = ''normal''\<rparr>),
      (''crisis_system_error'',
         \<lparr>t_subject = [CHR 0xF0, CHR 0x9F, CHR 0x86, CHR 0x98] @ '' Crisis System Error'',
          t_priority = ''urgent''\<rparr>)]"

text \<open>
  \<open>TEMPLATES\<close> is an object literal, so \<open>TEMPLATES[type]\<close> also finds what every object
  inherits from \<open>Object.prototype\<close>: functions, and the prototype itself under
  \<open>__proto__\<close>. Such a value is truthy and has no \<open>subject\<close> and no \<open>priority\<close>.
\<close>

definition Object_prototype_names :: "string list" where
  "Object_prototype_names =
     [''constructor'', ''__defineGetter__'', ''__defineSetter__'', ''hasOwnProperty'',
      ''__lookupGetter__'', ''__lookupSetter__'', ''isPrototypeOf'',
      ''propertyIsEnumerable'', ''toString'', ''valueOf'', ''__proto__'',
      ''toLocaleString'']"

datatype property = Own template | Inherited | Missing

definition TEMPLATES_get :: "string \<Rightarrow> property" where
  "TEMPLATES_get type =
     (case map_of TEMPLATES type of
        Some t \<Rightarrow> Own t
      | None \<Rightarrow> if type \<in> set Object_prototype_names then Inherited else Missing)"

fun subject_of :: "property \<Rightarrow> jsval" where
  "subject_of (Own t) = JStr (t_subject t)"
| "subject_of Inherited = JUndefined"
| "subject_of Missing = JUndefined"

fun priority_of :: "property \<Rightarrow> jsval" where
  "priority_of (Own t) = JStr (t_priority t)"
| "priority_of Inherited = JUndefined"
| "priority_of Missing = JUndefined"

text \<open>
  The payload of a notification as \<open>generateEmailBody\<close> meets it: \<open>undefined\<close>, \<open>null\<close>, or
  any other value (\<open>DObject\<close>). For such a value the option is the text that the
  formatter of the type makes of it, and \<open>None\<close> when formatting throws
  (\<open>JSON.stringify\<close> on a cyclic or BigInt value, \<open>map\<close> on \<open>suggestions\<close> that is no
  array).
\<close>

datatype data = DUndefined | DNull | DObject "string option"

text \<open>The types with a formatter of their own (the cases of the \<open>switch\<close>).\<close>

definition typed_formats :: "string list" where
  "typed_formats =
     [''test_failure'', ''build_failure'', ''security_alert'', ''crisis_system_error'']"

text \<open>
  \<open>generateEmailBody\<close> puts a fixed header and footer around what the formatter makes of
  the payload; only that part is kept. The four formatters of \<open>typed_formats\<close> read
  properties of \<open>data\<close>, which throws for \<open>undefined\<close> and \<open>null\<close>; \<open>formatGenericData\<close> prints
  \<open>JSON.stringify(data, null, 2)\<close>, which for them gives \<open>undefined\<close> and \<open>null\<close>. The result
  is \<open>None\<close> when the function throws.
\<close>

definition generateEmailBody :: "string \<Rightarrow> data \<Rightarrow> string option" where
  "generateEmailBody type d =
     (if type \<in> set typed_formats
      then (case d of DObject r \<Rightarrow> r | _ \<Rightarrow> None)
      else (case d of
              DUndefined \<Rightarrow> Some ''undefined''
            | DNull \<Rightarrow> Some ''null''
            | DObject r \<Rightarrow> r))"

text \<open>
  The message \<open>sendNotification\<close> builds. \<open>e_html\<close> is what \<open>generateEmailBody(type, data)\<close>
  rendered; the three headers are \<open>X-Priority\<close>, \<open>X-Second-Chance-Type\<close> and
  \<open>X-Second-Chance-Timestamp\<close>.
\<close>

record emailData =
  e_from :: string
  e_to :: string
  e_subject :: string
  e_html :: string
  e_priority :: jsval
  h_X_Priority :: string
  h_Type :: string
  h_Timestamp :: string

text \<open>The file \<open>logToFile\<close> writes: the message, a time stamp and the status marker.\<close>

record fallback_file =
  ff_email :: emailData
  ff_timestamp :: string
  ff_status :: string

text \<open>
  An activation of \<open>processQueue\<close> that has entered its loop: on the stack (\<open>Running\<close>, only
  inside one step), or suspended at \<open>await this.transporter.sendMail(email)\<close>, at the
  \<open>await this.logToFile(email)\<close> of the \<open>try\<close> block (no transporter), or at the one of the
  \<open>catch\<close> block.
\<close>

datatype frame =
  Running
| AwaitSendMail emailData
| AwaitLogToFile emailData
| AwaitLogToFileCatch emailData

text \<open>
  What the service did to the outside, in order: a delivery accepted or rejected by
  \<open>sendMail\<close>, a file written (its path below the log directory, as segments), a write
  that failed, and an error that left \<open>processQueue\<close> (the promise of the activation is
  rejected).
\<close>

datatype io_event =
  SendMailOk emailData
| SendMailFailed emailData
| WriteFile "string list" fallback_file
| WriteFailed emailData
| DrainAborted emailData

text \<open>
  The service (\<open>transporter\<close>: whether \<open>this.transporter\<close> is set) together with what
  surrounds it: the suspended activations of \<open>processQueue\<close>, the number of
  \<open>sendNotification\<close> calls that are over (\<open>returned\<close>: the promise of the call is
  resolved, so a caller that awaits the call goes on, as every caller in the scripts
  does; \<open>failed\<close>: the call threw, its promise is rejected), the trace of output, and the
  directory of fallback files (name and content; writing a name again replaces the
  file).
\<close>

record service =
  transporter :: bool
  queue :: "emailData list"
  isProcessing :: bool
  drains :: "frame list"
  returned :: nat
  failed :: nat
  io :: "io_event list"
  logdir :: "(string \<times> fallback_file) list"

definition EmailNotificationService_new :: service where
  "EmailNotificationService_new =
     \<lparr>transporter = False, queue = [], isProcessing = False, drains = [], returned = 0,
      failed = 0, io = [], logdir = []\<rparr>"

text \<open>
  The body of the \<open>while\<close> loop of activation \<open>i\<close>, from the test of the loop to the next
  \<open>await\<close>: with a message queued it is shifted off and its delivery starts; with none the
  loop ends, \<open>isProcessing\<close> is reset, and the \<open>sendNotification\<close> that awaited this
  activation returns.
\<close>

definition drain_loop :: "nat \<Rightarrow> service \<Rightarrow> service" where
  "drain_loop i s =
     (case queue s of
        [] \<Rightarrow> s\<lparr>isProcessing := False,
                 drains := take i (drains s) @ drop (Suc i) (drains s),
                 returned := Suc (returned s)\<rparr>
      | email # rest \<Rightarrow>
          s\<lparr>queue := rest,
            drains := (drains s)[i := (if transporter s then AwaitSendMail email
                                       else AwaitLogToFile email)]\<rparr>)"

definition processQueue :: "service \<Rightarrow> service" where
  "processQueue s =
     (if queue s = [] \<or> isProcessing s then s\<lparr>returned := Suc (returned s)\<rparr>
      else drain_loop (length (drains s))
             (s\<lparr>isProcessing := True, drains := drains s @ [Running]\<rparr>))"

definition X_Priority :: "jsval \<Rightarrow> string" where
  "X_Priority p = (if p = JStr ''urgent'' then ''1'' else if p = JStr ''high'' then ''2'' else ''3'')"

text \<open>
  The object literal \<open>emailData\<close> of \<open>sendNotification\<close>, for a body that was rendered;
  \<open>now\<close> is what \<open>new Date().toISOString()\<close> returned.
\<close>

definition make_email :: "string \<Rightarrow> string \<Rightarrow> string \<Rightarrow> emailData" where
  "make_email type html now =
     (let template = (case TEMPLATES_get type of
                        Missing \<Rightarrow> TEMPLATES_get ''bug_report''
                      | found \<Rightarrow> found)
      in \<lparr>e_from = EMAIL_CONFIG_from,
          e_to = EMAIL_CONFIG_recipient,
          e_subject = EMAIL_CONFIG_subject_prefix @ '' '' @ ToString (subject_of template),
          e_html = html,
          e_priority = priority_of template,
          h_X_Priority = X_Priority (priority_of template),
          h_Type = type,
          h_Timestamp = now\<rparr>)"

text \<open>
  \<open>sendNotification\<close>. The body is rendered while the message is built, before the
  \<open>push\<close>: if \<open>generateEmailBody\<close> throws, the call ends with that error and the queue is
  not touched.
\<close>

definition sendNotification :: "string \<Rightarrow> data \<Rightarrow> string \<Rightarrow> service \<Rightarrow> service" where
  "sendNotification type d now s =
     (case generateEmailBody type d of
        None \<Rightarrow> s\<lparr>failed := Suc (failed s)\<rparr>
      | Some html \<Rightarrow>
          (let emailData = make_email type html now;
               s1 = s\<lparr>queue := queue s @ [emailData]\<rparr>
           in if \<not> isProcessing s1 then processQueue s1
              else s1\<lparr>returned := Suc (returned s1)\<rparr>))"

text \<open>\<open>.replace(/:/g, '-')\<close>\<close>

definition replace_colons :: "string \<Rightarrow> string" where
  "replace_colons s = map (\<lambda>c. if c = CHR '':'' then CHR ''-'' else c) s"

text \<open>
  \<open>path.join(logDir, filename)\<close>, as the segments of the result below \<open>logDir\<close>: the name
  is cut at each \<open>/\<close>, empty segments and \<open>.\<close> are dropped, and \<open>..\<close> takes back the segment
  before it (a \<open>..\<close> with nothing before it stays and leads out of the directory).
\<close>

fun split_on :: "char \<Rightarrow> string \<Rightarrow> string list" where
  "split_on c [] = [[]]"
| "split_on c (x # xs) =
     (if x = c then [] # split_on c xs
      else (case split_on c xs of
              [] \<Rightarrow> [[x]]
            | w # ws \<Rightarrow> (x # w) # ws))"

fun resolve :: "string list \<Rightarrow> string list \<Rightarrow> string list" where
  "resolve st [] = rev st"
| "resolve st (seg # segs) =
     (if seg = [] \<or> seg = ''.'' then resolve st segs
      else if seg = ''..'' then
        (case st of
           [] \<Rightarrow> resolve [''..''] segs
         | seg0 # rest \<Rightarrow>
             if seg0 = ''..'' then resolve (''..'' # st) segs else resolve rest segs)
      else resolve (seg # st) segs)"

definition path_join :: "string \<Rightarrow> string list" where
  "path_join filename = resolve [] (split_on (CHR ''/'') filename)"

text \<open>
  \<open>logToFile\<close> when \<open>mkdir\<close> and \<open>writeFile\<close> succeed; \<open>now1\<close> and \<open>now2\<close> are what the two
  \<open>new Date().toISOString()\<close> returned (file name, time stamp in the file). The file is
  one of the log directory when the joined path is a single name.
\<close>

definition logToFile :: "emailData \<Rightarrow> string \<Rightarrow> string \<Rightarrow> service \<Rightarrow> service" where
  "logToFile email now1 now2 s =
     (let filename = replace_colons now1 @ ''_'' @ h_Type email @ ''.json'';
          filepath = path_join filename;
          file = \<lparr>ff_email = email, ff_timestamp = now2,
                   ff_status = ''queued_for_manual_send''\<rparr>
      in s\<lparr>io := io s @ [WriteFile filepath file],
           logdir := (case filepath of
                        [name] \<Rightarrow> AList.update name file (logdir s)
                      | _ \<Rightarrow> logdir s)\<rparr>)"

text \<open>
  What can happen to the service, one event at a time (JavaScript runs one callback to
  its next \<open>await\<close> before anything else runs): \<open>initialize\<close> is called (and
  \<open>createTransport\<close> returns a transporter or throws), \<open>sendNotification\<close> is called, or the
  operation that activation \<open>i\<close> awaits settles. A \<open>logToFile\<close> that is rejected (\<open>mkdir\<close> or
  \<open>writeFile\<close> fails: no such directory for a type with a \<open>/\<close> in it, disk full, no
  permission) is caught once, in the \<open>try\<close> block, and the \<open>catch\<close> block calls \<open>logToFile\<close>
  again; rejected there, the error leaves \<open>processQueue\<close>: the activation is gone, the
  message with it, \<open>isProcessing = false\<close> is never reached, and the \<open>sendNotification\<close>
  that awaited the activation fails. An event that cannot happen in a state (nothing
  of that kind is awaited) has no successor.
\<close>

datatype event =
  Initialize bool
| SendNotification string data string
| SendMailResolved nat
| SendMailRejected nat
| LogToFileDone nat string string
| LogToFileRejected nat

definition step :: "event \<Rightarrow> service \<Rightarrow> service option" where
  "step e s =
     (case e of
        Initialize created \<Rightarrow> Some (if created then s\<lparr>transporter := True\<rparr> else s)
      | SendNotification type d now \<Rightarrow> Some (sendNotification type d now s)
      | SendMailResolved i \<Rightarrow>
          (if i < length (drains s) then
             (case drains s ! i of
                AwaitSendMail email \<Rightarrow> Some (drain_loop i (s\<lparr>io := io s @ [SendMailOk email]\<rparr>))
              | _ \<Rightarrow> None)
           else None)
      | SendMailRejected i \<Rightarrow>
          (if i < length (drains s) then
             (case drains s ! i of
                AwaitSendMail email \<Rightarrow>
                  Some (s\<lparr>io := io s @ [SendMailFailed email],
                         drains := (drains s)[i := AwaitLogToFileCatch email]\<rparr>)
              | _ \<Rightarrow> None)
           else None)
      | LogToFileDone i now1 now2 \<Rightarrow>
          (if i < length (drains s) then
             (case drains s ! i of
                AwaitLogToFile email \<Rightarrow> Some (drain_loop i (logToFile email now1 now2 s))
              | AwaitLogToFileCatch email \<Rightarrow>
                  Some (drain_loop i (logToFile email now1 now2 s))
              | _ \<Rightarrow> None)
           else None)
      | LogToFileRejected i \<Rightarrow>
          (if i < length (drains s) then
             (case drains s ! i of
                AwaitLogToFile email \<Rightarrow>
                  Some (s\<lparr>io := io s @ [WriteFailed email],
                         drains := (drains s)[i := AwaitLogToFileCatch email]\<rparr>)
              | AwaitLogToFileCatch email \<Rightarrow>
                  Some (s\<lparr>io := io s @ [WriteFailed email, DrainAborted email],
                         drains := take i (drains s) @ drop (Suc i) (drains s),
                         failed := Suc (failed s)\<rparr>)
              | _ \<Rightarrow> None)
           else None))"

fun run :: "event list \<Rightarrow> service \<Rightarrow> service option" where
  "run [] s = Some s"
| "run (e # es) s = (case step e s of None \<Rightarrow> None | Some s' \<Rightarrow> run es s')"

text \<open>
  Bookkeeping over a run, used to state the properties: the messages that were queued,
  the calls made, the messages consumed (delivered or written), the messages whose turn
  in the loop is over (consumed, or lost with an aborted drain), the messages handed to
  \<open>sendMail\<close>, the messages in flight, and whether a drain was aborted.
\<close>

fun submitted :: "event list \<Rightarrow> emailData list" where
  "submitted [] = []"
| "submitted (SendNotification type d now # es) =
     (case generateEmailBody type d of
        None \<Rightarrow> submitted es
      | Some html \<Rightarrow> make_email type html now # submitted es)"
| "submitted (_ # es) = submitted es"

fun calls :: "event list \<Rightarrow> nat" where
  "calls [] = 0"
| "calls (SendNotification type d now # es) = Suc (calls es)"
| "calls (_ # es) = calls es"

fun consumed :: "io_event list \<Rightarrow> emailData list" where
  "consumed [] = []"
| "consumed (SendMailOk email # as) = email # consumed as"
| "consumed (WriteFile p f # as) = ff_email f # consumed as"
| "consumed (_ # as) = consumed as"

fun finished :: "io_event list \<Rightarrow> emailData list" where
  "finished [] = []"
| "finished (SendMailOk email # as) = email # finished as"
| "finished (WriteFile p f # as) = ff_email f # finished as"
| "finished (DrainAborted email # as) = email # finished as"
| "finished (_ # as) = finished as"

fun attempts :: "io_event list \<Rightarrow> emailData list" where
  "attempts [] = []"
| "attempts (SendMailOk email # as) = email # attempts as"
| "attempts (SendMailFailed email # as) = email # attempts as"
| "attempts (_ # as) = attempts as"

fun aborted :: "io_event list \<Rightarrow> bool" where
  "aborted [] = False"
| "aborted (DrainAborted email # as) = True"
| "aborted (_ # as) = aborted as"

fun in_flight :: "frame list \<Rightarrow> emailData list" where
  "in_flight [] = []"
| "in_flight (Running # fs) = in_flight fs"
| "in_flight (AwaitSendMail email # fs) = email # in_flight fs"
| "in_flight (AwaitLogToFile email # fs) = email # in_flight fs"
| "in_flight (AwaitLogToFileCatch email # fs) = email # in_flight fs"

fun is_completion :: "event \<Rightarrow> bool" where
  "is_completion (Initialize created) = False"
| "is_completion (SendNotification type d now) = False"
| "is_completion _ = True"

section \<open>Auxiliary notions for the proofs\<close>

text \<open>The four patterns the two classifying functions of the generator consult.\<close>

definition generator_patterns :: "regexp list" where
  "generator_patterns =
     [fp_crisis (failurePatterns TodoGenerator_new),
      fp_security (failurePatterns TodoGenerator_new),
      fp_performance (failurePatterns TodoGenerator_new),
      fp_build (failurePatterns TodoGenerator_new)]"

text \<open>
  The report \<open>processEmail\<close> ends with, written without the pattern objects' state
  (shown equal to the function's own result in \<open>processEmail_monitor\<close>).
\<close>

definition detect :: "parsed_email \<Rightarrow> string \<times> string" where
  "detect email =
     first_match
       [(matches (pat_critical MONITOR_CONFIG_patterns) (content email),
           (''critical'', ''general'')),
        (matches (pat_security MONITOR_CONFIG_patterns) (content email),
           (''high'', ''security'')),
        (matches (pat_performance MONITOR_CONFIG_patterns) (content email),
           (''normal'', ''performance''))]
       (''normal'', ''general'')"

definition report :: "string \<Rightarrow> parsed_email \<Rightarrow> bugReport" where
  "report bid email =
     \<lparr>br_id = bid,
      br_from = or_else (m_from_text email) ''Unknown'',
      br_subject = or_else (m_subject email) ''No subject'',
      br_body = or_else (m_text email) (or_else (m_html email) []),
      br_priority = fst (detect email),
      br_category = snd (detect email),
      br_status = ''new''\<rparr>"

text \<open>
  The invariant of the dispatcher. With no activation of \<open>processQueue\<close> suspended, either
  the flag is down, the queue is empty and no drain was ever aborted, or the flag is up
  and a drain was aborted. With one suspended, the flag is up, no drain was aborted, and
  the activation awaits \<open>sendMail\<close> only if there is a transporter. There are never two.
\<close>

fun frame_ok :: "bool \<Rightarrow> frame \<Rightarrow> bool" where
  "frame_ok tr Running = False"
| "frame_ok tr (AwaitSendMail email) = tr"
| "frame_ok tr (AwaitLogToFile email) = True"
| "frame_ok tr (AwaitLogToFileCatch email) = True"

definition service_inv :: "service \<Rightarrow> bool" where
  "service_inv s =
     (case drains s of
        [] \<Rightarrow> (if isProcessing s then aborted (io s)
               else queue s = [] \<and> \<not> aborted (io s))
      | [fr] \<Rightarrow> isProcessing s \<and> frame_ok (transporter s) fr \<and> \<not> aborted (io s)
      | _ \<Rightarrow> False)"

section \<open>The matcher\<close>

lemma test_nonglobal: "\<not> global r \<Longrightarrow> test r s = (matches r s, r)"
  by (auto simp: test_def matches_def split: option.splits)

lemma test_regexp_i: "test (regexp_i bs) s = (matches (regexp_i bs) s, regexp_i bs)"
  by (rule test_nonglobal) (simp add: regexp_i_def)

lemmas case_tables = toLowerCase_def toLowerCase_char_def toUpperCase_char_def
  upper_letters_def lower_letters_def Canonicalize_def

lemma toLowerCase_append: "toLowerCase (a @ b) = toLowerCase a @ toLowerCase b"
  by (simp add: toLowerCase_def)

text \<open>A word that occurs in the text is found by a pattern that has it as a branch.\<close>

lemma lit_match_prefix: "prefix w t \<Longrightarrow> lit_match ic w t"
proof (induction w arbitrary: t)
  case Nil
  then show ?case by simp
next
  case (Cons a w)
  then obtain t' where "t = a # t'" "prefix w t'"
    by (cases t) auto
  with Cons.IH show ?case by simp
qed

lemma alts_match_mem:
  "b \<in> set bs \<Longrightarrow> branch_match ic b t \<noteq> None \<Longrightarrow> alts_match ic bs t \<noteq> None"
  by (induction bs) (auto split: option.splits)

lemma search_at_suffix:
  "alts_match ic bs t \<noteq> None \<Longrightarrow> search ic bs (ps @ t) \<noteq> None"
proof (induction ps)
  case Nil
  then show ?case by (cases t) (auto split: option.splits)
next
  case (Cons a ps)
  then show ?case by (auto split: option.splits)
qed

lemma search_sublist:
  assumes "sublist w s" "[w] \<in> set bs"
  shows "search ic bs s \<noteq> None"
proof -
  from assms(1) obtain ps ss where s: "s = ps @ w @ ss"
    by (auto simp: sublist_def)
  have "lit_match ic w (w @ ss)" by (rule lit_match_prefix) simp
  then have "branch_match ic [w] (w @ ss) \<noteq> None" by simp
  with assms(2) have "alts_match ic bs (w @ ss) \<noteq> None" by (rule alts_match_mem)
  then show ?thesis unfolding s by (rule search_at_suffix)
qed

lemma matches_word:
  "[w] \<in> set (branches r) \<Longrightarrow> sublist w s \<Longrightarrow> matches r s"
  unfolding matches_def by (rule search_sublist)

text \<open>
  Conversely, a match needs the first word of some branch, so all of that word's
  characters (up to case) occur in the text.
\<close>

lemma lit_match_set:
  "lit_match ic w t \<Longrightarrow> Canonicalize ic ` set w \<subseteq> Canonicalize ic ` set t"
  by (induction ic w t rule: lit_match.induct) auto

lemma alts_match_branch:
  "alts_match ic bs t \<noteq> None \<Longrightarrow> \<exists>b\<in>set bs. branch_match ic b t \<noteq> None"
  by (induction bs) (auto split: option.splits)

lemma search_suffix:
  "search ic bs s \<noteq> None \<Longrightarrow> \<exists>t. suffix t s \<and> alts_match ic bs t \<noteq> None"
proof (induction s)
  case Nil
  then show ?case by auto
next
  case (Cons c cs)
  show ?case
  proof (cases "alts_match ic bs (c # cs)")
    case None
    with Cons.prems have "search ic bs cs \<noteq> None" by auto
    with Cons.IH obtain t where "suffix t cs" "alts_match ic bs t \<noteq> None" by blast
    then show ?thesis by (auto simp: suffix_Cons)
  next
    case (Some n)
    then show ?thesis by (intro exI [of _ "c # cs"]) simp
  qed
qed

lemma branch_match_first:
  "branch_match ic (w # qs) t \<noteq> None \<Longrightarrow> lit_match ic w t"
  by (auto split: if_splits)

lemma matches_first_word:
  assumes "matches r s" "[] \<notin> set (branches r)"
  shows "\<exists>b\<in>set (branches r).
           Canonicalize (ignoreCase r) ` set (hd b) \<subseteq> Canonicalize (ignoreCase r) ` set s"
proof -
  from assms(1) obtain t where t: "suffix t s" "alts_match (ignoreCase r) (branches r) t \<noteq> None"
    unfolding matches_def using search_suffix by blast
  then obtain b where b: "b \<in> set (branches r)" "branch_match (ignoreCase r) b t \<noteq> None"
    using alts_match_branch by blast
  with assms(2) obtain w qs where "b = w # qs" by (cases b) auto
  with b have "lit_match (ignoreCase r) w t" using branch_match_first by blast
  then have "Canonicalize (ignoreCase r) ` set w \<subseteq> Canonicalize (ignoreCase r) ` set t"
    by (rule lit_match_set)
  moreover from t(1) have "set t \<subseteq> set s" by (rule set_mono_suffix)
  ultimately show ?thesis using b(1) \<open>b = w # qs\<close> by (intro bexI [of _ b]) auto
qed

section \<open>The classifier of the TODO generator\<close>

text \<open>
  None of the generator's patterns carries the flag \<open>g\<close>, so a \<open>test\<close> leaves the
  generator as it was and answers whether the pattern matches.
\<close>

lemma test_crisis_new:
  "test_crisis TodoGenerator_new s =
     (matches (fp_crisis (failurePatterns TodoGenerator_new)) s, TodoGenerator_new)"
  by (simp add: test_crisis_def TodoGenerator_new_def test_regexp_i)

lemma test_security_new:
  "test_security TodoGenerator_new s =
     (matches (fp_security (failurePatterns TodoGenerator_new)) s, TodoGenerator_new)"
  by (simp add: test_security_def TodoGenerator_new_def test_regexp_i)

lemma test_performance_new:
  "test_performance TodoGenerator_new s =
     (matches (fp_performance (failurePatterns TodoGenerator_new)) s, TodoGenerator_new)"
  by (simp add: test_performance_def TodoGenerator_new_def test_regexp_i)

lemma test_build_new:
  "test_build TodoGenerator_new s =
     (matches (fp_build (failurePatterns TodoGenerator_new)) s, TodoGenerator_new)"
  by (simp add: test_build_def TodoGenerator_new_def test_regexp_i)

lemmas test_new = test_crisis_new test_security_new test_performance_new test_build_new

lemma determinePriority_new:
  "determinePriority TodoGenerator_new f =
     (first_match
        [(matches (fp_crisis (failurePatterns TodoGenerator_new)) (priorityText f), ''critical''),
         (matches (fp_security (failurePatterns TodoGenerator_new)) (priorityText f), ''critical''),
         (f_severity f = JStr ''critical'' \<or> truthy (f_blocking f), ''high''),
         (matches (fp_performance (failurePatterns TodoGenerator_new)) (priorityText f), ''medium'')]
        ''low'',
      TodoGenerator_new)"
  by (simp add: determinePriority_def test_new Let_def)

lemma determineCategory_new:
  "determineCategory TodoGenerator_new f =
     (first_match
        [(matches (fp_crisis (failurePatterns TodoGenerator_new)) (categoryText f), ''crisis-system''),
         (matches (fp_security (failurePatterns TodoGenerator_new)) (categoryText f), ''security''),
         (matches (fp_performance (failurePatterns TodoGenerator_new)) (categoryText f), ''performance''),
         (matches (fp_build (failurePatterns TodoGenerator_new)) (categoryText f), ''build'')]
        ''general'',
      TodoGenerator_new)"
  by (simp add: determineCategory_def test_new Let_def)

text \<open>
  Missing and empty fields render as \<open>undefined\<close>, \<open>null\<close> or nothing; each pattern needs
  a letter or digit that these texts do not have.
\<close>

lemma blank_chars:
  "absent_or_empty v \<Longrightarrow> set (toLowerCase (ToString v)) \<subseteq> set ''undefil''"
  unfolding absent_or_empty_def
  by (elim disjE) (simp_all add: case_tables)

lemma blank_categoryText:
  assumes "absent_or_empty (f_error f)" "absent_or_empty (f_message f)"
    "absent_or_empty (f_name f)"
  shows "set (categoryText f) \<subseteq> set ''undefil ''"
  using assms [THEN blank_chars]
  by (auto simp: categoryText_def toLowerCase_append case_tables)

lemma blank_priorityText:
  assumes "absent_or_empty (f_error f)" "absent_or_empty (f_message f)"
  shows "set (priorityText f) \<subseteq> set ''undefil ''"
  using assms [THEN blank_chars]
  by (auto simp: priorityText_def toLowerCase_append case_tables)

lemma blank_no_first_word:
  "r \<in> set generator_patterns \<Longrightarrow> b \<in> set (branches r) \<Longrightarrow>
     b \<noteq> [] \<and>
     \<not> Canonicalize (ignoreCase r) ` set (hd b)
         \<subseteq> Canonicalize (ignoreCase r) ` set ''undefil ''"
  by (auto simp: generator_patterns_def TodoGenerator_new_def regexp_i_def case_tables)

lemma blank_no_match:
  assumes "r \<in> set generator_patterns" "set s \<subseteq> set ''undefil ''"
  shows "\<not> matches r s"
proof
  assume m: "matches r s"
  from assms(1) have "[] \<notin> set (branches r)"
    using blank_no_first_word by blast
  with m obtain b where b: "b \<in> set (branches r)"
    "Canonicalize (ignoreCase r) ` set (hd b) \<subseteq> Canonicalize (ignoreCase r) ` set s"
    using matches_first_word by blast
  from assms(2) have "Canonicalize (ignoreCase r) ` set s
      \<subseteq> Canonicalize (ignoreCase r) ` set ''undefil ''"
    by (rule image_mono)
  with b(2) have "Canonicalize (ignoreCase r) ` set (hd b)
      \<subseteq> Canonicalize (ignoreCase r) ` set ''undefil ''"
    by (rule subset_trans)
  with blank_no_first_word [OF assms(1) b(1)] show False by simp
qed

section \<open>The mail monitor\<close>

lemma test_pat_monitor:
  assumes "patterns w = MONITOR_CONFIG_patterns"
  shows "test_pat_critical w s = (matches (pat_critical MONITOR_CONFIG_patterns) s, w)"
    and "test_pat_security w s = (matches (pat_security MONITOR_CONFIG_patterns) s, w)"
    and "test_pat_performance w s = (matches (pat_performance MONITOR_CONFIG_patterns) s, w)"
    and "test_pat_bug w s = (matches (pat_bug MONITOR_CONFIG_patterns) s, w)"
  using assms
  by (simp_all add: test_pat_critical_def test_pat_security_def test_pat_performance_def
      test_pat_bug_def MONITOR_CONFIG_patterns_def test_regexp_i)

lemma processEmail_monitor:
  assumes "patterns w = MONITOR_CONFIG_patterns"
  shows "processEmail bid email w =
     (report bid email,
      if matches (pat_bug MONITOR_CONFIG_patterns) (content email)
      then sendAcknowledgment (report bid email)
             (createTodoFromBug (report bid email) (saveBugReport (report bid email) w))
      else w)"
  by (simp add: processEmail_def test_pat_monitor [OF assms] Let_def content_def report_def
      detect_def)

lemma paths_differ:
  "''bug-reports/'' @ bid @ ''.json'' \<noteq> ''bug-reports/acknowledgments/'' @ bid @ ''-ack.json''"
  "''todos/TODO-'' @ bid @ ''.json'' \<noteq> ''bug-reports/acknowledgments/'' @ bid @ ''-ack.json''"
  "''bug-reports/'' @ bid @ ''.json'' \<noteq> ''todos/TODO-'' @ bid @ ''.json''"
proof -
  show "''bug-reports/'' @ bid @ ''.json'' \<noteq>
        ''bug-reports/acknowledgments/'' @ bid @ ''-ack.json''"
  proof
    assume "''bug-reports/'' @ bid @ ''.json'' =
            ''bug-reports/acknowledgments/'' @ bid @ ''-ack.json''"
    then have "length (''bug-reports/'' @ bid @ ''.json'') =
               length (''bug-reports/acknowledgments/'' @ bid @ ''-ack.json'')"
      by (rule arg_cong)
    then show False by simp
  qed
qed simp_all

section \<open>Claims about classification\<close>

text \<open>
  Claim C3, as amended. In the TODO generator, a failure whose text contains a word of
  the crisis pattern and a word of the security pattern gets the category
  \<open>crisis-system\<close>; \<open>determineCategory\<close> takes the first match in the order crisis,
  security, performance, build (else \<open>general\<close>), and \<open>determinePriority\<close> the first match
  in the order crisis, security, severity or blocking flag, performance (else \<open>low\<close>).
  The mail monitor has patterns and an order of its own: critical (priority
  \<open>critical\<close>, category left \<open>general\<close>), then security, then performance; it never
  assigns \<open>crisis-system\<close>.
\<close>

theorem classifier_precedence:
  "([wc] \<in> set (branches (fp_crisis (failurePatterns TodoGenerator_new))) \<and>
    [ws] \<in> set (branches (fp_security (failurePatterns TodoGenerator_new))) \<and>
    sublist wc (categoryText f) \<and> sublist ws (categoryText f) \<longrightarrow>
      fst (determineCategory TodoGenerator_new f) = ''crisis-system'') \<and>
   fst (determineCategory TodoGenerator_new f) =
     first_match
       [(matches (fp_crisis (failurePatterns TodoGenerator_new)) (categoryText f),
           ''crisis-system''),
        (matches (fp_security (failurePatterns TodoGenerator_new)) (categoryText f),
           ''security''),
        (matches (fp_performance (failurePatterns TodoGenerator_new)) (categoryText f),
           ''performance''),
        (matches (fp_build (failurePatterns TodoGenerator_new)) (categoryText f), ''build'')]
       ''general'' \<and>
   fst (determinePriority TodoGenerator_new f) =
     first_match
       [(matches (fp_crisis (failurePatterns TodoGenerator_new)) (priorityText f),
           ''critical''),
        (matches (fp_security (failurePatterns TodoGenerator_new)) (priorityText f),
           ''critical''),
        (f_severity f = JStr ''critical'' \<or> truthy (f_blocking f), ''high''),
        (matches (fp_performance (failurePatterns TodoGenerator_new)) (priorityText f),
           ''medium'')]
       ''low'' \<and>
   (patterns w = MONITOR_CONFIG_patterns \<longrightarrow>
      (br_priority (fst (processEmail bid email w)),
       br_category (fst (processEmail bid email w))) =
        first_match
          [(matches (pat_critical MONITOR_CONFIG_patterns) (content email),
              (''critical'', ''general'')),
           (matches (pat_security MONITOR_CONFIG_patterns) (content email),
              (''high'', ''security'')),
           (matches (pat_performance MONITOR_CONFIG_patterns) (content email),
              (''normal'', ''performance''))]
          (''normal'', ''general''))"
proof (intro conjI impI)
  assume h: "[wc] \<in> set (branches (fp_crisis (failurePatterns TodoGenerator_new))) \<and>
    [ws] \<in> set (branches (fp_security (failurePatterns TodoGenerator_new))) \<and>
    sublist wc (categoryText f) \<and> sublist ws (categoryText f)"
  then have "matches (fp_crisis (failurePatterns TodoGenerator_new)) (categoryText f)"
    by (intro matches_word [of wc]) simp_all
  then show "fst (determineCategory TodoGenerator_new f) = ''crisis-system''"
    by (simp add: determineCategory_new)
next
  assume "patterns w = MONITOR_CONFIG_patterns"
  then show "(br_priority (fst (processEmail bid email w)),
       br_category (fst (processEmail bid email w))) =
        first_match
          [(matches (pat_critical MONITOR_CONFIG_patterns) (content email),
              (''critical'', ''general'')),
           (matches (pat_security MONITOR_CONFIG_patterns) (content email),
              (''high'', ''security'')),
           (matches (pat_performance MONITOR_CONFIG_patterns) (content email),
              (''normal'', ''performance''))]
          (''normal'', ''general'')"
    by (simp add: processEmail_monitor report_def detect_def)
qed (simp_all add: determineCategory_new determinePriority_new)

theorem classifier_precedence_witness:
  "[''hotline''] \<in> set (branches (fp_crisis (failurePatterns TodoGenerator_new))) \<and>
   [''exploit''] \<in> set (branches (fp_security (failurePatterns TodoGenerator_new))) \<and>
   sublist ''hotline'' (categoryText
     \<lparr>f_error = JStr ''Exploit found'', f_message = JUndefined, f_name = JStr ''Hotline page'',
      f_severity = JUndefined, f_blocking = JUndefined\<rparr>) \<and>
   sublist ''exploit'' (categoryText
     \<lparr>f_error = JStr ''Exploit found'', f_message = JUndefined, f_name = JStr ''Hotline page'',
      f_severity = JUndefined, f_blocking = JUndefined\<rparr>) \<and>
   fst (determineCategory TodoGenerator_new
     \<lparr>f_error = JStr ''Exploit found'', f_message = JUndefined, f_name = JStr ''Hotline page'',
      f_severity = JUndefined, f_blocking = JUndefined\<rparr>) = ''crisis-system'' \<and>
   patterns EmailBugMonitor_new = MONITOR_CONFIG_patterns"
proof -
  let ?f = "\<lparr>f_error = JStr ''Exploit found'', f_message = JUndefined,
    f_name = JStr ''Hotline page'', f_severity = JUndefined, f_blocking = JUndefined\<rparr>"
  have t: "categoryText ?f = ''exploit found undefined hotline page''"
    by (simp add: categoryText_def case_tables)
  have a: "[''hotline''] \<in> set (branches (fp_crisis (failurePatterns TodoGenerator_new)))"
    and b: "[''exploit''] \<in> set (branches (fp_security (failurePatterns TodoGenerator_new)))"
    by (simp_all add: TodoGenerator_new_def regexp_i_def)
  have c: "sublist ''hotline'' (categoryText ?f)"
    unfolding t sublist_def
    by (intro exI [of _ "''exploit found undefined ''"] exI [of _ "'' page''"]) simp
  have d: "sublist ''exploit'' (categoryText ?f)"
    unfolding t sublist_def
    by (intro exI [of _ "[]"] exI [of _ "'' found undefined hotline page''"]) simp
  have e: "patterns EmailBugMonitor_new = MONITOR_CONFIG_patterns"
    by (simp add: EmailBugMonitor_new_def)
  from classifier_precedence [of "''hotline''" "''exploit''" ?f EmailBugMonitor_new] a b c d
  have "fst (determineCategory TodoGenerator_new ?f) = ''crisis-system''" by blast
  with a b c d e show ?thesis by blast
qed

text \<open>
  Claim C3 as stated fails for the mail monitor: a mail that mentions the hotline and
  security is filed under \<open>security\<close>, and one that mentions a crisis and security under
  \<open>general\<close>.
\<close>

theorem classifier_precedence_counterexample:
  "sublist ''hotline'' (content \<lparr>m_from_text = None, m_subject = Some ''Hotline security bug'',
      m_text = None, m_html = None\<rparr>) \<and>
   sublist ''security'' (content \<lparr>m_from_text = None, m_subject = Some ''Hotline security bug'',
      m_text = None, m_html = None\<rparr>) \<and>
   br_category (fst (processEmail ''BUG-1'' \<lparr>m_from_text = None,
      m_subject = Some ''Hotline security bug'', m_text = None, m_html = None\<rparr>
      EmailBugMonitor_new)) = ''security'' \<and>
   sublist ''crisis'' (content \<lparr>m_from_text = None,
      m_subject = Some ''Crisis page security bug'', m_text = None, m_html = None\<rparr>) \<and>
   sublist ''security'' (content \<lparr>m_from_text = None,
      m_subject = Some ''Crisis page security bug'', m_text = None, m_html = None\<rparr>) \<and>
   br_category (fst (processEmail ''BUG-2'' \<lparr>m_from_text = None,
      m_subject = Some ''Crisis page security bug'', m_text = None, m_html = None\<rparr>
      EmailBugMonitor_new)) = ''general''"
  by code_simp

text \<open>
  Claim C7, as amended. A failure whose \<open>error\<close>, \<open>message\<close> and \<open>name\<close> are each missing,
  \<open>null\<close> or empty is classified without error; missing fields enter the text as the
  words \<open>undefined\<close> and \<open>null\<close>, which no pattern matches, so the result is the one for
  empty strings: category \<open>general\<close>, and priority \<open>low\<close> unless \<open>severity\<close> is \<open>critical\<close>
  or \<open>blocking\<close> is truthy, when it is \<open>high\<close>.
\<close>

theorem blank_fields_classification:
  assumes "absent_or_empty (f_error f)" "absent_or_empty (f_message f)"
    "absent_or_empty (f_name f)"
  shows "fst (determineCategory TodoGenerator_new f) = ''general'' \<and>
         fst (determinePriority TodoGenerator_new f) =
           (if f_severity f = JStr ''critical'' \<or> truthy (f_blocking f)
            then ''high'' else ''low'') \<and>
         fst (determineCategory TodoGenerator_new f) =
           fst (determineCategory TodoGenerator_new
                  (f\<lparr>f_error := JStr [], f_message := JStr [], f_name := JStr []\<rparr>)) \<and>
         fst (determinePriority TodoGenerator_new f) =
           fst (determinePriority TodoGenerator_new
                  (f\<lparr>f_error := JStr [], f_message := JStr [], f_name := JStr []\<rparr>))"
proof -
  have general: "fst (determineCategory TodoGenerator_new g) = ''general'' \<and>
         fst (determinePriority TodoGenerator_new g) =
           (if f_severity g = JStr ''critical'' \<or> truthy (f_blocking g)
            then ''high'' else ''low'')"
    if g: "absent_or_empty (f_error g)" "absent_or_empty (f_message g)"
      "absent_or_empty (f_name g)" for g
  proof -
    have c: "\<not> matches r (categoryText g)" if "r \<in> set generator_patterns" for r
      using that blank_categoryText [OF g] by (rule blank_no_match)
    have p: "\<not> matches r (priorityText g)" if "r \<in> set generator_patterns" for r
      using that blank_priorityText [OF g(1,2)] by (rule blank_no_match)
    have "fst (determineCategory TodoGenerator_new g) = ''general''"
      using c by (simp add: determineCategory_new generator_patterns_def)
    moreover have "fst (determinePriority TodoGenerator_new g) =
           (if f_severity g = JStr ''critical'' \<or> truthy (f_blocking g)
            then ''high'' else ''low'')"
      using p by (simp add: determinePriority_new generator_patterns_def)
    ultimately show ?thesis by simp
  qed
  let ?e = "f\<lparr>f_error := JStr [], f_message := JStr [], f_name := JStr []\<rparr>"
  have "absent_or_empty (f_error ?e)" "absent_or_empty (f_message ?e)"
    "absent_or_empty (f_name ?e)"
    by (simp_all add: absent_or_empty_def)
  from general [OF this] general [OF assms] show ?thesis by simp
qed

theorem blank_fields_classification_witness:
  "absent_or_empty JUndefined \<and> absent_or_empty (JStr []) \<and> absent_or_empty JNull \<and>
   fst (determineCategory TodoGenerator_new
     \<lparr>f_error = JUndefined, f_message = JStr [], f_name = JNull,
      f_severity = JStr ''minor'', f_blocking = JBool False\<rparr>) = ''general'' \<and>
   fst (determinePriority TodoGenerator_new
     \<lparr>f_error = JUndefined, f_message = JStr [], f_name = JNull,
      f_severity = JStr ''minor'', f_blocking = JBool False\<rparr>) = ''low''"
  using blank_fields_classification [of "\<lparr>f_error = JUndefined, f_message = JStr [],
    f_name = JNull, f_severity = JStr ''minor'', f_blocking = JBool False\<rparr>"]
  by (simp add: absent_or_empty_def)

text \<open>
  Claim C7 as stated fails: a failure with no text at all that is marked blocking gets
  the priority \<open>high\<close>, not \<open>low\<close>.
\<close>

theorem blank_fields_counterexample:
  "absent_or_empty JUndefined \<and>
   fst (determinePriority TodoGenerator_new
     \<lparr>f_error = JUndefined, f_message = JUndefined, f_name = JUndefined,
      f_severity = JUndefined, f_blocking = JBool True\<rparr>) = ''high''"
  by code_simp

text \<open>
  Claim C8. Classification is deterministic and has no side effect: each of
  \<open>determinePriority\<close> and \<open>determineCategory\<close> leaves the generator, and with it the
  state of its pattern objects, as constructed, and classifying the same failure again
  in the state the first classification left gives the same priority and category.
\<close>

theorem classification_deterministic:
  "snd (determinePriority TodoGenerator_new f) = TodoGenerator_new \<and>
   snd (determineCategory TodoGenerator_new f) = TodoGenerator_new \<and>
   snd (classify TodoGenerator_new f) = TodoGenerator_new \<and>
   fst (classify (snd (classify TodoGenerator_new f)) f) = fst (classify TodoGenerator_new f)"
  by (simp add: classify_def determinePriority_new determineCategory_new)

theorem classification_deterministic_witness:
  "snd (classify TodoGenerator_new
     \<lparr>f_error = JStr ''Timeout in build'', f_message = JUndefined, f_name = JStr ''t1'',
      f_severity = JUndefined, f_blocking = JUndefined\<rparr>) = TodoGenerator_new \<and>
   fst (classify (snd (classify TodoGenerator_new
     \<lparr>f_error = JStr ''Timeout in build'', f_message = JUndefined, f_name = JStr ''t1'',
      f_severity = JUndefined, f_blocking = JUndefined\<rparr>))
     \<lparr>f_error = JStr ''Timeout in build'', f_message = JUndefined, f_name = JStr ''t1'',
      f_severity = JUndefined, f_blocking = JUndefined\<rparr>) =
   fst (classify TodoGenerator_new
     \<lparr>f_error = JStr ''Timeout in build'', f_message = JUndefined, f_name = JStr ''t1'',
      f_severity = JUndefined, f_blocking = JUndefined\<rparr>)"
  using classification_deterministic [of "\<lparr>f_error = JStr ''Timeout in build'',
    f_message = JUndefined, f_name = JStr ''t1'', f_severity = JUndefined,
    f_blocking = JUndefined\<rparr>"]
  by blast

section \<open>Claims about the mail monitor\<close>

text \<open>
  Claim C10. For a mail processed by \<open>processEmail\<close>, the monitor changes (a bug report
  file, a TODO file and an acknowledgment file are written, the report is recorded and a
  \<open>bug_report\<close> notification is requested) if and only if the lowercased subject and body
  match the bug pattern; a mail that matches only the other patterns leaves nothing
  behind. A mail that matches the critical pattern gets the priority \<open>critical\<close> and
  keeps the category \<open>general\<close>.
\<close>

theorem processEmail_gate:
  assumes "patterns w = MONITOR_CONFIG_patterns"
  shows "(matches (pat_bug MONITOR_CONFIG_patterns) (content email) \<longleftrightarrow>
            snd (processEmail bid email w) \<noteq> w) \<and>
         (matches (pat_bug MONITOR_CONFIG_patterns) (content email) \<longrightarrow>
            map_of (disk (snd (processEmail bid email w))) (''bug-reports/'' @ bid @ ''.json'') =
              Some (BugReportJson (fst (processEmail bid email w))) \<and>
            (\<exists>t. map_of (disk (snd (processEmail bid email w)))
                    (''todos/TODO-'' @ bid @ ''.json'') = Some (TodoJson t) \<and>
                 td_priority t = br_priority (fst (processEmail bid email w)) \<and>
                 td_category t = br_category (fst (processEmail bid email w))) \<and>
            (\<exists>a. map_of (disk (snd (processEmail bid email w)))
                    (''bug-reports/acknowledgments/'' @ bid @ ''-ack.json'') = Some (AckJson a) \<and>
                 ack_bugId a = bid) \<and>
            bugReports (snd (processEmail bid email w)) =
              bugReports w @ [fst (processEmail bid email w)] \<and>
            (\<exists>n. notified (snd (processEmail bid email w)) =
                   notified w @ [(''bug_report'', n)])) \<and>
         (matches (pat_critical MONITOR_CONFIG_patterns) (content email) \<longrightarrow>
            br_priority (fst (processEmail bid email w)) = ''critical'' \<and>
            br_category (fst (processEmail bid email w)) = ''general'')"
proof -
  let ?b = "report bid email"
  let ?w' = "sendAcknowledgment ?b (createTodoFromBug ?b (saveBugReport ?b w))"
  have grow: "bugReports ?w' = bugReports w @ [?b]"
    by (simp add: sendAcknowledgment_def createTodoFromBug_def saveBugReport_def
        writeFile_def Let_def)
  then have "?w' \<noteq> w" by auto
  then have 1: "matches (pat_bug MONITOR_CONFIG_patterns) (content email) \<longleftrightarrow>
            snd (processEmail bid email w) \<noteq> w"
    by (simp add: processEmail_monitor [OF assms])
  have id: "br_id ?b = bid" by (simp add: report_def)
  have 2: "map_of (disk (snd (processEmail bid email w))) (''bug-reports/'' @ bid @ ''.json'') =
              Some (BugReportJson (fst (processEmail bid email w))) \<and>
            (\<exists>t. map_of (disk (snd (processEmail bid email w)))
                    (''todos/TODO-'' @ bid @ ''.json'') = Some (TodoJson t) \<and>
                 td_priority t = br_priority (fst (processEmail bid email w)) \<and>
                 td_category t = br_category (fst (processEmail bid email w))) \<and>
            (\<exists>a. map_of (disk (snd (processEmail bid email w)))
                    (''bug-reports/acknowledgments/'' @ bid @ ''-ack.json'') = Some (AckJson a) \<and>
                 ack_bugId a = bid) \<and>
            bugReports (snd (processEmail bid email w)) =
              bugReports w @ [fst (processEmail bid email w)] \<and>
            (\<exists>n. notified (snd (processEmail bid email w)) =
                   notified w @ [(''bug_report'', n)])"
    if "matches (pat_bug MONITOR_CONFIG_patterns) (content email)"
    using that paths_differ [of bid]
    by (simp add: processEmail_monitor [OF assms] sendAcknowledgment_def createTodoFromBug_def
        saveBugReport_def writeFile_def Let_def update_conv' id)
  have 3: "br_priority (fst (processEmail bid email w)) = ''critical'' \<and>
    br_category (fst (processEmail bid email w)) = ''general''"
    if "matches (pat_critical MONITOR_CONFIG_patterns) (content email)"
    using that by (simp add: processEmail_monitor [OF assms] report_def detect_def)
  show ?thesis using 1 2 3 by blast
qed

theorem processEmail_gate_witness:
  "patterns EmailBugMonitor_new = MONITOR_CONFIG_patterns \<and>
   matches (pat_bug MONITOR_CONFIG_patterns)
     (content \<lparr>m_from_text = Some ''test@example.com'',
               m_subject = Some ''Critical bug in login system'',
               m_text = Some ''Users cannot login.'', m_html = None\<rparr>) \<and>
   matches (pat_critical MONITOR_CONFIG_patterns)
     (content \<lparr>m_from_text = Some ''test@example.com'',
               m_subject = Some ''Critical bug in login system'',
               m_text = Some ''Users cannot login.'', m_html = None\<rparr>) \<and>
   snd (processEmail ''BUG-1'' \<lparr>m_from_text = Some ''test@example.com'',
               m_subject = Some ''Critical bug in login system'',
               m_text = Some ''Users cannot login.'', m_html = None\<rparr> EmailBugMonitor_new)
     \<noteq> EmailBugMonitor_new \<and>
   br_priority (fst (processEmail ''BUG-1'' \<lparr>m_from_text = Some ''test@example.com'',
               m_subject = Some ''Critical bug in login system'',
               m_text = Some ''Users cannot login.'', m_html = None\<rparr> EmailBugMonitor_new))
     = ''critical'' \<and>
   br_category (fst (processEmail ''BUG-1'' \<lparr>m_from_text = Some ''test@example.com'',
               m_subject = Some ''Critical bug in login system'',
               m_text = Some ''Users cannot login.'', m_html = None\<rparr> EmailBugMonitor_new))
     = ''general'' \<and>
   snd (processEmail ''BUG-2'' \<lparr>m_from_text = None,
               m_subject = Some ''Urgent: security breach, site is slow'',
               m_text = None, m_html = None\<rparr> EmailBugMonitor_new) = EmailBugMonitor_new"
proof -
  let ?m = "\<lparr>m_from_text = Some ''test@example.com'',
    m_subject = Some ''Critical bug in login system'',
    m_text = Some ''Users cannot login.'', m_html = None\<rparr>"
  let ?q = "\<lparr>m_from_text = None, m_subject = Some ''Urgent: security breach, site is slow'',
    m_text = None, m_html = None\<rparr>"
  have h: "patterns EmailBugMonitor_new = MONITOR_CONFIG_patterns"
    by (simp add: EmailBugMonitor_new_def)
  have b: "matches (pat_bug MONITOR_CONFIG_patterns) (content ?m)" by code_simp
  have c: "matches (pat_critical MONITOR_CONFIG_patterns) (content ?m)" by code_simp
  have n: "\<not> matches (pat_bug MONITOR_CONFIG_patterns) (content ?q)" by code_simp
  from processEmail_gate [OF h, of ?m "''BUG-1''"] processEmail_gate [OF h, of ?q "''BUG-2''"]
    h b c n
  show ?thesis by blast
qed

section \<open>The dispatcher: invariant and bookkeeping\<close>

lemma service_inv_new: "service_inv EmailNotificationService_new"
  by (simp add: service_inv_def EmailNotificationService_new_def)

lemmas service_defs = drain_loop_def processQueue_def sendNotification_def logToFile_def

lemma consumed_append: "consumed (xs @ ys) = consumed xs @ consumed ys"
  by (induction xs rule: consumed.induct) auto

lemma finished_append: "finished (xs @ ys) = finished xs @ finished ys"
  by (induction xs rule: finished.induct) auto

lemma attempts_append: "attempts (xs @ ys) = attempts xs @ attempts ys"
  by (induction xs rule: attempts.induct) auto

lemma aborted_append: "aborted (xs @ ys) \<longleftrightarrow> aborted xs \<or> aborted ys"
  by (induction xs rule: aborted.induct) auto

lemma submitted_append: "submitted (xs @ ys) = submitted xs @ submitted ys"
  by (induction xs rule: submitted.induct) (auto split: option.splits)

lemma calls_append: "calls (xs @ ys) = calls xs + calls ys"
  by (induction xs rule: calls.induct) auto

lemma frame_ok_True: "frame_ok tr fr \<Longrightarrow> frame_ok True fr"
  by (cases fr) auto

lemma service_inv_step:
  assumes "service_inv s" "step e s = Some s'"
  shows "service_inv s'"
  using assms
  by (cases e; cases "transporter s"; cases "drains s"; cases "queue s")
    (auto simp: step_def service_inv_def service_defs Let_def aborted_append
      split: list.splits if_splits frame.splits option.splits intro: frame_ok_True)

lemma service_inv_run:
  "service_inv s \<Longrightarrow> run evs s = Some s' \<Longrightarrow> service_inv s'"
  by (induction evs arbitrary: s) (auto split: option.splits dest: service_inv_step)

lemma reachable_inv:
  "run evs EmailNotificationService_new = Some s \<Longrightarrow> service_inv s"
  using service_inv_new by (rule service_inv_run)

lemma conservation_step:
  assumes "service_inv s" "step e s = Some s'"
  shows "finished (io s') @ in_flight (drains s') @ queue s' =
         finished (io s) @ in_flight (drains s) @ queue s @ submitted [e]"
  using assms
  by (cases e; cases "transporter s"; cases "drains s"; cases "queue s")
    (auto simp: step_def service_inv_def service_defs Let_def finished_append
      split: list.splits if_splits frame.splits option.splits)

lemma conservation_run:
  "service_inv s \<Longrightarrow> run evs s = Some s' \<Longrightarrow>
     finished (io s') @ in_flight (drains s') @ queue s' =
     finished (io s) @ in_flight (drains s) @ queue s @ submitted evs"
proof (induction evs arbitrary: s)
  case Nil
  then show ?case by simp
next
  case (Cons e evs)
  from Cons.prems obtain s1 where s1: "step e s = Some s1" "run evs s1 = Some s'"
    by (auto split: option.splits)
  have "service_inv s1" using Cons.prems(1) s1(1) by (rule service_inv_step)
  from Cons.IH [OF this s1(2)] conservation_step [OF Cons.prems(1) s1(1)]
  show ?case using submitted_append [of "[e]" evs] by simp
qed

lemma calls_step:
  assumes "service_inv s" "step e s = Some s'"
  shows "returned s' + failed s' + length (drains s') =
         returned s + failed s + length (drains s) + calls [e]"
  using assms
  by (cases e; cases "transporter s"; cases "drains s"; cases "queue s")
    (auto simp: step_def service_inv_def service_defs Let_def
      split: list.splits if_splits frame.splits option.splits)

lemma calls_run:
  "service_inv s \<Longrightarrow> run evs s = Some s' \<Longrightarrow>
     returned s' + failed s' + length (drains s') =
     returned s + failed s + length (drains s) + calls evs"
proof (induction evs arbitrary: s)
  case Nil
  then show ?case by simp
next
  case (Cons e evs)
  from Cons.prems obtain s1 where s1: "step e s = Some s1" "run evs s1 = Some s'"
    by (auto split: option.splits)
  have "service_inv s1" using Cons.prems(1) s1(1) by (rule service_inv_step)
  from Cons.IH [OF this s1(2)] calls_step [OF Cons.prems(1) s1(1)]
  show ?case using calls_append [of "[e]" evs] by simp
qed

text \<open>Once a drain was aborted nothing is consumed any more.\<close>

lemma jam_step:
  assumes "drains s = []" "isProcessing s" "step e s = Some s'"
  shows "drains s' = [] \<and> isProcessing s' \<and> io s' = io s \<and> logdir s' = logdir s \<and>
         queue s' = queue s @ submitted [e]"
  using assms
  by (cases e)
    (auto simp: step_def service_defs Let_def split: if_splits option.splits)

lemma jam_run:
  "drains s = [] \<Longrightarrow> isProcessing s \<Longrightarrow> run evs s = Some s' \<Longrightarrow>
     drains s' = [] \<and> isProcessing s' \<and> io s' = io s \<and> logdir s' = logdir s \<and>
     queue s' = queue s @ submitted evs"
proof (induction evs arbitrary: s)
  case Nil
  then show ?case by simp
next
  case (Cons e evs)
  from Cons.prems obtain s1 where s1: "step e s = Some s1" "run evs s1 = Some s'"
    by (auto split: option.splits)
  from jam_step [OF Cons.prems(1,2) s1(1)] Cons.IH [OF _ _ s1(2)]
  show ?case using submitted_append [of "[e]" evs] by simp
qed


text \<open>
  A rejected delivery: the same message awaits the write of the \<open>catch\<close> block, the
  queue is untouched and no second delivery is pending; if the write succeeds, the
  drain goes on with the head of the queue or ends.
\<close>

lemma rejected_delivery_is_logged:
  assumes "run evs EmailNotificationService_new = Some s"
    and "i < length (drains s)" and "drains s ! i = AwaitSendMail email"
  shows "\<exists>s1. step (SendMailRejected i) s = Some s1 \<and>
            io s1 = io s @ [SendMailFailed email] \<and>
            queue s1 = queue s \<and> drains s1 = [AwaitLogToFileCatch email] \<and>
            step (SendMailResolved i) s1 = None \<and> step (SendMailRejected i) s1 = None \<and>
            (\<forall>now1 now2 s2.
               step (LogToFileDone i now1 now2) s1 = Some s2 \<longrightarrow>
               io s2 = io s1 @
                 [WriteFile (path_join (replace_colons now1 @ ''_'' @ h_Type email @ ''.json''))
                    \<lparr>ff_email = email, ff_timestamp = now2,
                     ff_status = ''queued_for_manual_send''\<rparr>] \<and>
               (case queue s of
                  [] \<Rightarrow> drains s2 = [] \<and> queue s2 = [] \<and> \<not> isProcessing s2
                | next_email # rest \<Rightarrow>
                    drains s2 = [AwaitSendMail next_email] \<and> queue s2 = rest \<and>
                    isProcessing s2))"
proof -
  have inv: "service_inv s" using assms(1) by (rule reachable_inv)
  with assms(2,3) have d: "drains s = [AwaitSendMail email]" "i = 0" "transporter s" "isProcessing s"
    by (auto simp: service_inv_def split: list.splits)
  let ?s1 = "s\<lparr>io := io s @ [SendMailFailed email], drains := [AwaitLogToFileCatch email]\<rparr>"
  have 1: "step (SendMailRejected i) s = Some ?s1"
    using d by (simp add: step_def)
  have 2: "step (SendMailResolved i) ?s1 = None" "step (SendMailRejected i) ?s1 = None"
    using d by (simp_all add: step_def)
  have 3: "io s2 = io ?s1 @
                 [WriteFile (path_join (replace_colons now1 @ ''_'' @ h_Type email @ ''.json''))
                    \<lparr>ff_email = email, ff_timestamp = now2,
                     ff_status = ''queued_for_manual_send''\<rparr>] \<and>
               (case queue s of
                  [] \<Rightarrow> drains s2 = [] \<and> queue s2 = [] \<and> \<not> isProcessing s2
                | next_email # rest \<Rightarrow>
                    drains s2 = [AwaitSendMail next_email] \<and> queue s2 = rest \<and>
                    isProcessing s2)"
    if "step (LogToFileDone i now1 now2) ?s1 = Some s2" for now1 now2 s2
    using d that by (cases "queue s") (auto simp: step_def service_defs Let_def)
  show ?thesis
    using 1 2 3 by simp
qed

lemma path_join_examples:
  "path_join ''2026-01-01T10-00-00.001Z_bug_report.json'' =
     [''2026-01-01T10-00-00.001Z_bug_report.json''] \<and>
   path_join ''2026-01-01T10-00-00.001Z_a/b.json'' = [''2026-01-01T10-00-00.001Z_a'', ''b.json''] \<and>
   path_join ''2026-01-01T10-00-00.001Z_/../x.json'' = [''x.json''] \<and>
   path_join ''2026-01-01T10-00-00.001Z_/../../x.json'' = [''..'', ''x.json'']"
  by code_simp


lemma unknown_type_falls_back:
  assumes "TEMPLATES_get type = Missing"
  shows "e_subject (make_email type html now) =
           ''[Second Chance] '' @ [CHR 0xF0, CHR 0x9F, CHR 0x90, CHR 0x9B] @
           '' Bug Report Received'' \<and>
         e_priority (make_email type html now) = JStr ''normal'' \<and>
         h_X_Priority (make_email type html now) = ''3'' \<and>
         h_Type (make_email type html now) = type"
  using assms
  by (simp add: make_email_def TEMPLATES_get_def TEMPLATES_def X_Priority_def
      EMAIL_CONFIG_subject_prefix_def)

lemma X_Priority_mapping:
  "X_Priority (JStr ''urgent'') = ''1'' \<and> X_Priority (JStr ''high'') = ''2'' \<and>
   (p \<noteq> JStr ''urgent'' \<and> p \<noteq> JStr ''high'' \<longrightarrow> X_Priority p = ''3'')"
  by (simp add: X_Priority_def)


section \<open>Claims about the dispatcher\<close>

text \<open>
  Claim C1. In every state the service reaches, at most one activation of \<open>processQueue\<close>
  is in its loop; \<open>isProcessing\<close> is set exactly when one is, or when a drain was aborted
  before (then the flag stays set with none running); a \<open>sendNotification\<close> that arrives
  while the flag is set appends its message to the queue and starts no second drain.
\<close>

theorem single_drain:
  assumes "run evs EmailNotificationService_new = Some s"
  shows "length (drains s) \<le> 1 \<and>
         (isProcessing s \<longleftrightarrow> drains s \<noteq> [] \<or> aborted (io s)) \<and>
         (isProcessing s \<and> generateEmailBody type d = Some html \<longrightarrow>
            (\<exists>s'. step (SendNotification type d now) s = Some s' \<and>
                  queue s' = queue s @ [make_email type html now] \<and>
                  drains s' = drains s \<and> isProcessing s'))"
proof -
  have inv: "service_inv s" using assms by (rule reachable_inv)
  then have "length (drains s) \<le> 1" "isProcessing s \<longleftrightarrow> drains s \<noteq> [] \<or> aborted (io s)"
    by (auto simp: service_inv_def split: list.splits if_splits)
  moreover have "\<exists>s'. step (SendNotification type d now) s = Some s' \<and>
                  queue s' = queue s @ [make_email type html now] \<and>
                  drains s' = drains s \<and> isProcessing s'"
    if "isProcessing s" "generateEmailBody type d = Some html"
    using that by (simp add: step_def sendNotification_def Let_def)
  ultimately show ?thesis by blast
qed

theorem single_drain_witness:
  "run [SendNotification ''test_results'' (DObject (Some ''<p>ok</p>''))
          ''2026-01-01T10:00:00.000Z'']
     EmailNotificationService_new \<noteq> None \<and>
   length (drains (the (run [SendNotification ''test_results'' (DObject (Some ''<p>ok</p>''))
     ''2026-01-01T10:00:00.000Z''] EmailNotificationService_new))) \<le> 1 \<and>
   isProcessing (the (run [SendNotification ''test_results'' (DObject (Some ''<p>ok</p>''))
     ''2026-01-01T10:00:00.000Z''] EmailNotificationService_new)) \<and>
   generateEmailBody ''build_failure'' (DObject (Some ''<p>no</p>'')) = Some ''<p>no</p>'' \<and>
   (\<exists>s'. step (SendNotification ''build_failure'' (DObject (Some ''<p>no</p>''))
               ''2026-01-01T10:00:00.001Z'')
            (the (run [SendNotification ''test_results'' (DObject (Some ''<p>ok</p>''))
               ''2026-01-01T10:00:00.000Z''] EmailNotificationService_new)) = Some s' \<and>
         drains s' = drains (the (run [SendNotification ''test_results''
               (DObject (Some ''<p>ok</p>'')) ''2026-01-01T10:00:00.000Z'']
               EmailNotificationService_new)))"
proof -
  let ?evs = "[SendNotification ''test_results'' (DObject (Some ''<p>ok</p>''))
    ''2026-01-01T10:00:00.000Z'']"
  let ?s = "the (run ?evs EmailNotificationService_new)"
  have r: "run ?evs EmailNotificationService_new = Some ?s" by code_simp
  have n: "run ?evs EmailNotificationService_new \<noteq> None" by code_simp
  have p: "isProcessing ?s" by code_simp
  have g: "generateEmailBody ''build_failure'' (DObject (Some ''<p>no</p>'')) = Some ''<p>no</p>''"
    by code_simp
  from single_drain [OF r, of "''build_failure''" "DObject (Some ''<p>no</p>'')" "''<p>no</p>''"
      "''2026-01-01T10:00:00.001Z''"]
    n p g show ?thesis by blast
qed

text \<open>
  Claim C6, as amended. \<open>sendNotification\<close> renders the body first; a call whose rendering
  throws ends with that error and queues nothing. Every other call is accepted in every
  state, whatever the length of the queue, and its message joins the pending ones. The
  call is over at once (its promise resolved) exactly when \<open>isProcessing\<close> is set;
  otherwise it awaits \<open>processQueue\<close>, so it runs the drain itself and is pending with
  it: the calls made are the calls over plus the running drain, and a pending call is
  over only at the settling that ends its drain, which at the regular end of the loop
  leaves the queue empty.
\<close>

theorem submit_accepts:
  assumes "run evs EmailNotificationService_new = Some s"
  shows "(generateEmailBody type d = None \<longrightarrow>
            step (SendNotification type d now) s = Some (s\<lparr>failed := Suc (failed s)\<rparr>)) \<and>
         (generateEmailBody type d = Some html \<longrightarrow>
            (\<exists>s'. step (SendNotification type d now) s = Some s' \<and>
               in_flight (drains s') @ queue s' =
                 in_flight (drains s) @ queue s @ [make_email type html now] \<and>
               failed s' = failed s \<and>
               (isProcessing s \<longrightarrow> returned s' = Suc (returned s) \<and> drains s' = drains s) \<and>
               (\<not> isProcessing s \<longrightarrow>
                  returned s' = returned s \<and> length (drains s') = 1 \<and> isProcessing s'))) \<and>
         returned s + failed s + length (drains s) = calls evs \<and>
         (\<forall>e s'. step e s = Some s' \<and> is_completion e \<and> returned s < returned s' \<longrightarrow>
            queue s' = [] \<and> drains s' = [] \<and> \<not> isProcessing s') \<and>
         (\<forall>e s'. step e s = Some s' \<and> is_completion e \<and> failed s < failed s' \<longrightarrow>
            drains s' = [] \<and> aborted (io s'))"
proof -
  have inv: "service_inv s" using assms by (rule reachable_inv)
  have z: "step (SendNotification type d now) s = Some (s\<lparr>failed := Suc (failed s)\<rparr>)"
    if "generateEmailBody type d = None"
    using that by (simp add: step_def sendNotification_def)
  have a: "\<exists>s'. step (SendNotification type d now) s = Some s' \<and>
               in_flight (drains s') @ queue s' =
                 in_flight (drains s) @ queue s @ [make_email type html now] \<and>
               failed s' = failed s \<and>
               (isProcessing s \<longrightarrow> returned s' = Suc (returned s) \<and> drains s' = drains s) \<and>
               (\<not> isProcessing s \<longrightarrow>
                  returned s' = returned s \<and> length (drains s') = 1 \<and> isProcessing s')"
    if "generateEmailBody type d = Some html"
    using inv that
    by (cases "transporter s"; cases "drains s")
      (auto simp: step_def service_inv_def service_defs Let_def split: list.splits if_splits)
  have b: "returned s + failed s + length (drains s) = calls evs"
    using calls_run [OF service_inv_new assms] by (simp add: EmailNotificationService_new_def)
  have c: "queue s' = [] \<and> drains s' = [] \<and> \<not> isProcessing s'"
    if "step e s = Some s'" "is_completion e" "returned s < returned s'" for e s'
    using inv that
    by (cases e; cases "transporter s"; cases "drains s"; cases "queue s")
      (auto simp: step_def service_inv_def service_defs Let_def
        split: list.splits if_splits frame.splits)
  have f: "drains s' = [] \<and> aborted (io s')"
    if "step e s = Some s'" "is_completion e" "failed s < failed s'" for e s'
    using inv that
    by (cases e; cases "transporter s"; cases "drains s"; cases "queue s")
      (auto simp: step_def service_inv_def service_defs Let_def aborted_append
        split: list.splits if_splits frame.splits)
  show ?thesis using z a b c f by blast
qed

theorem submit_accepts_witness:
  "run [SendNotification ''test_results'' (DObject (Some ''a'')) ''2026-01-01T10:00:00.000Z'']
     EmailNotificationService_new \<noteq> None \<and>
   isProcessing (the (run [SendNotification ''test_results'' (DObject (Some ''a''))
     ''2026-01-01T10:00:00.000Z''] EmailNotificationService_new)) \<and>
   generateEmailBody ''bug_report'' DNull = Some ''null'' \<and>
   (\<exists>s'. step (SendNotification ''bug_report'' DNull ''2026-01-01T10:00:00.001Z'')
            (the (run [SendNotification ''test_results'' (DObject (Some ''a''))
               ''2026-01-01T10:00:00.000Z''] EmailNotificationService_new)) = Some s' \<and>
         returned s' = Suc (returned (the (run [SendNotification ''test_results''
               (DObject (Some ''a'')) ''2026-01-01T10:00:00.000Z'']
               EmailNotificationService_new)))) \<and>
   generateEmailBody ''test_failure'' DUndefined = None \<and>
   step (SendNotification ''test_failure'' DUndefined ''2026-01-01T10:00:00.002Z'')
     (the (run [SendNotification ''test_results'' (DObject (Some ''a''))
        ''2026-01-01T10:00:00.000Z''] EmailNotificationService_new)) =
   Some ((the (run [SendNotification ''test_results'' (DObject (Some ''a''))
        ''2026-01-01T10:00:00.000Z''] EmailNotificationService_new))
      \<lparr>failed := Suc (failed (the (run [SendNotification ''test_results''
        (DObject (Some ''a'')) ''2026-01-01T10:00:00.000Z''] EmailNotificationService_new)))\<rparr>)"
proof -
  let ?evs = "[SendNotification ''test_results'' (DObject (Some ''a''))
    ''2026-01-01T10:00:00.000Z'']"
  let ?s = "the (run ?evs EmailNotificationService_new)"
  have r: "run ?evs EmailNotificationService_new = Some ?s" by code_simp
  have n: "run ?evs EmailNotificationService_new \<noteq> None" by code_simp
  have p: "isProcessing ?s" by code_simp
  have g: "generateEmailBody ''bug_report'' DNull = Some ''null''" by code_simp
  have h: "generateEmailBody ''test_failure'' DUndefined = None" by code_simp
  from submit_accepts [OF r, of "''bug_report''" DNull "''2026-01-01T10:00:00.001Z''" "''null''"]
    submit_accepts [OF r, of "''test_failure''" DUndefined "''2026-01-01T10:00:00.002Z''"]
    n p g h
  show ?thesis by blast
qed

text \<open>
  Claim C6 as stated fails: after a first \<open>sendNotification\<close> no call is over while its
  message is in flight; after a second call and the first write, one call is over (the
  second) and the first still waits, now for the delivery of the second message.
\<close>

theorem submit_returns_immediately_counterexample:
  "run [SendNotification ''test_results'' (DObject (Some ''a'')) ''2026-01-01T10:00:00.000Z'']
     EmailNotificationService_new \<noteq> None \<and>
   returned (the (run [SendNotification ''test_results'' (DObject (Some ''a''))
     ''2026-01-01T10:00:00.000Z''] EmailNotificationService_new)) = 0 \<and>
   failed (the (run [SendNotification ''test_results'' (DObject (Some ''a''))
     ''2026-01-01T10:00:00.000Z''] EmailNotificationService_new)) = 0 \<and>
   in_flight (drains (the (run [SendNotification ''test_results'' (DObject (Some ''a''))
     ''2026-01-01T10:00:00.000Z''] EmailNotificationService_new))) =
     [make_email ''test_results'' ''a'' ''2026-01-01T10:00:00.000Z''] \<and>
   run [SendNotification ''test_results'' (DObject (Some ''a'')) ''2026-01-01T10:00:00.000Z'',
        SendNotification ''bug_report'' (DObject (Some ''b'')) ''2026-01-01T10:00:00.001Z'',
        LogToFileDone 0 ''2026-01-01T10:00:00.002Z'' ''2026-01-01T10:00:00.002Z'']
     EmailNotificationService_new \<noteq> None \<and>
   returned (the (run [SendNotification ''test_results'' (DObject (Some ''a''))
          ''2026-01-01T10:00:00.000Z'',
        SendNotification ''bug_report'' (DObject (Some ''b'')) ''2026-01-01T10:00:00.001Z'',
        LogToFileDone 0 ''2026-01-01T10:00:00.002Z'' ''2026-01-01T10:00:00.002Z'']
     EmailNotificationService_new)) = 1 \<and>
   in_flight (drains (the (run [SendNotification ''test_results'' (DObject (Some ''a''))
          ''2026-01-01T10:00:00.000Z'',
        SendNotification ''bug_report'' (DObject (Some ''b'')) ''2026-01-01T10:00:00.001Z'',
        LogToFileDone 0 ''2026-01-01T10:00:00.002Z'' ''2026-01-01T10:00:00.002Z'']
     EmailNotificationService_new))) =
     [make_email ''bug_report'' ''b'' ''2026-01-01T10:00:00.001Z'']"
  by code_simp


text \<open>
  Claim C2 at two failing inputs, without a transporter. First, three \<open>bug_report\<close>
  notifications, the second and third arriving during the drain and written in the same
  millisecond: all three are consumed, yet the directory holds the first and the third,
  the second is lost. Second, a notification of type \<open>a/b\<close> followed by one that arrives
  during the drain: both writes of the first fail, the error leaves \<open>processQueue\<close> with
  \<open>isProcessing\<close> set, and the second message stays in the queue, neither delivered nor
  written (by \<open>jam_run\<close>, for ever).
\<close>

theorem submitted_during_drain_lost:
  "run [SendNotification ''bug_report'' (DObject (Some ''first'')) ''2026-01-01T10:00:00.000Z'',
        SendNotification ''bug_report'' (DObject (Some ''second'')) ''2026-01-01T10:00:00.000Z'',
        SendNotification ''bug_report'' (DObject (Some ''third'')) ''2026-01-01T10:00:00.000Z'',
        LogToFileDone 0 ''2026-01-01T10:00:00.001Z'' ''2026-01-01T10:00:00.001Z'',
        LogToFileDone 0 ''2026-01-01T10:00:00.002Z'' ''2026-01-01T10:00:00.002Z'',
        LogToFileDone 0 ''2026-01-01T10:00:00.002Z'' ''2026-01-01T10:00:00.002Z'']
     EmailNotificationService_new \<noteq> None \<and>
   drains (the (run
       [SendNotification ''bug_report'' (DObject (Some ''first'')) ''2026-01-01T10:00:00.000Z'',
        SendNotification ''bug_report'' (DObject (Some ''second'')) ''2026-01-01T10:00:00.000Z'',
        SendNotification ''bug_report'' (DObject (Some ''third'')) ''2026-01-01T10:00:00.000Z'',
        LogToFileDone 0 ''2026-01-01T10:00:00.001Z'' ''2026-01-01T10:00:00.001Z'',
        LogToFileDone 0 ''2026-01-01T10:00:00.002Z'' ''2026-01-01T10:00:00.002Z'',
        LogToFileDone 0 ''2026-01-01T10:00:00.002Z'' ''2026-01-01T10:00:00.002Z'']
     EmailNotificationService_new)) = [] \<and>
   map e_html (consumed (io (the (run
       [SendNotification ''bug_report'' (DObject (Some ''first'')) ''2026-01-01T10:00:00.000Z'',
        SendNotification ''bug_report'' (DObject (Some ''second'')) ''2026-01-01T10:00:00.000Z'',
        SendNotification ''bug_report'' (DObject (Some ''third'')) ''2026-01-01T10:00:00.000Z'',
        LogToFileDone 0 ''2026-01-01T10:00:00.001Z'' ''2026-01-01T10:00:00.001Z'',
        LogToFileDone 0 ''2026-01-01T10:00:00.002Z'' ''2026-01-01T10:00:00.002Z'',
        LogToFileDone 0 ''2026-01-01T10:00:00.002Z'' ''2026-01-01T10:00:00.002Z'']
     EmailNotificationService_new)))) = [''first'', ''second'', ''third''] \<and>
   map (e_html \<circ> ff_email \<circ> snd) (logdir (the (run
       [SendNotification ''bug_report'' (DObject (Some ''first'')) ''2026-01-01T10:00:00.000Z'',
        SendNotification ''bug_report'' (DObject (Some ''second'')) ''2026-01-01T10:00:00.000Z'',
        SendNotification ''bug_report'' (DObject (Some ''third'')) ''2026-01-01T10:00:00.000Z'',
        LogToFileDone 0 ''2026-01-01T10:00:00.001Z'' ''2026-01-01T10:00:00.001Z'',
        LogToFileDone 0 ''2026-01-01T10:00:00.002Z'' ''2026-01-01T10:00:00.002Z'',
        LogToFileDone 0 ''2026-01-01T10:00:00.002Z'' ''2026-01-01T10:00:00.002Z'']
     EmailNotificationService_new))) = [''first'', ''third''] \<and>
   run [SendNotification ''a/b'' (DObject (Some ''first'')) ''2026-01-01T10:00:00.000Z'',
        SendNotification ''bug_report'' (DObject (Some ''second'')) ''2026-01-01T10:00:00.001Z'',
        LogToFileRejected 0, LogToFileRejected 0]
     EmailNotificationService_new \<noteq> None \<and>
   drains (the (run
       [SendNotification ''a/b'' (DObject (Some ''first'')) ''2026-01-01T10:00:00.000Z'',
        SendNotification ''bug_report'' (DObject (Some ''second'')) ''2026-01-01T10:00:00.001Z'',
        LogToFileRejected 0, LogToFileRejected 0]
     EmailNotificationService_new)) = [] \<and>
   isProcessing (the (run
       [SendNotification ''a/b'' (DObject (Some ''first'')) ''2026-01-01T10:00:00.000Z'',
        SendNotification ''bug_report'' (DObject (Some ''second'')) ''2026-01-01T10:00:00.001Z'',
        LogToFileRejected 0, LogToFileRejected 0]
     EmailNotificationService_new)) \<and>
   map e_html (queue (the (run
       [SendNotification ''a/b'' (DObject (Some ''first'')) ''2026-01-01T10:00:00.000Z'',
        SendNotification ''bug_report'' (DObject (Some ''second'')) ''2026-01-01T10:00:00.001Z'',
        LogToFileRejected 0, LogToFileRejected 0]
     EmailNotificationService_new))) = [''second''] \<and>
   consumed (io (the (run
       [SendNotification ''a/b'' (DObject (Some ''first'')) ''2026-01-01T10:00:00.000Z'',
        SendNotification ''bug_report'' (DObject (Some ''second'')) ''2026-01-01T10:00:00.001Z'',
        LogToFileRejected 0, LogToFileRejected 0]
     EmailNotificationService_new))) = [] \<and>
   logdir (the (run
       [SendNotification ''a/b'' (DObject (Some ''first'')) ''2026-01-01T10:00:00.000Z'',
        SendNotification ''bug_report'' (DObject (Some ''second'')) ''2026-01-01T10:00:00.001Z'',
        LogToFileRejected 0, LogToFileRejected 0]
     EmailNotificationService_new)) = []"
  by code_simp

text \<open>
  Claim C5 at a failing input: with a transporter, a notification of type \<open>a/b\<close> and a
  second one behind it; the delivery of the first is rejected and so is the write in the
  \<open>catch\<close> block. The message is attempted once and written nowhere, the drain is gone
  with \<open>isProcessing\<close> set, the second message and every later one stay in the queue, and
  nothing is awaited that could move them. When the write succeeds the drain goes on as
  claimed (\<open>rejected_delivery_is_logged\<close>).
\<close>

theorem failed_fallback_write_blocks_queue:
  "run [Initialize True,
        SendNotification ''a/b'' (DObject (Some ''first'')) ''2026-01-01T10:00:00.000Z'',
        SendNotification ''bug_report'' (DObject (Some ''second'')) ''2026-01-01T10:00:00.001Z'',
        SendMailRejected 0, LogToFileRejected 0,
        SendNotification ''test_results'' (DObject (Some ''third'')) ''2026-01-01T10:00:00.002Z'']
     EmailNotificationService_new \<noteq> None \<and>
   map e_html (attempts (io (the (run [Initialize True,
        SendNotification ''a/b'' (DObject (Some ''first'')) ''2026-01-01T10:00:00.000Z'',
        SendNotification ''bug_report'' (DObject (Some ''second'')) ''2026-01-01T10:00:00.001Z'',
        SendMailRejected 0, LogToFileRejected 0,
        SendNotification ''test_results'' (DObject (Some ''third'')) ''2026-01-01T10:00:00.002Z'']
     EmailNotificationService_new)))) = [''first''] \<and>
   consumed (io (the (run [Initialize True,
        SendNotification ''a/b'' (DObject (Some ''first'')) ''2026-01-01T10:00:00.000Z'',
        SendNotification ''bug_report'' (DObject (Some ''second'')) ''2026-01-01T10:00:00.001Z'',
        SendMailRejected 0, LogToFileRejected 0,
        SendNotification ''test_results'' (DObject (Some ''third'')) ''2026-01-01T10:00:00.002Z'']
     EmailNotificationService_new))) = [] \<and>
   logdir (the (run [Initialize True,
        SendNotification ''a/b'' (DObject (Some ''first'')) ''2026-01-01T10:00:00.000Z'',
        SendNotification ''bug_report'' (DObject (Some ''second'')) ''2026-01-01T10:00:00.001Z'',
        SendMailRejected 0, LogToFileRejected 0,
        SendNotification ''test_results'' (DObject (Some ''third'')) ''2026-01-01T10:00:00.002Z'']
     EmailNotificationService_new)) = [] \<and>
   drains (the (run [Initialize True,
        SendNotification ''a/b'' (DObject (Some ''first'')) ''2026-01-01T10:00:00.000Z'',
        SendNotification ''bug_report'' (DObject (Some ''second'')) ''2026-01-01T10:00:00.001Z'',
        SendMailRejected 0, LogToFileRejected 0,
        SendNotification ''test_results'' (DObject (Some ''third'')) ''2026-01-01T10:00:00.002Z'']
     EmailNotificationService_new)) = [] \<and>
   isProcessing (the (run [Initialize True,
        SendNotification ''a/b'' (DObject (Some ''first'')) ''2026-01-01T10:00:00.000Z'',
        SendNotification ''bug_report'' (DObject (Some ''second'')) ''2026-01-01T10:00:00.001Z'',
        SendMailRejected 0, LogToFileRejected 0,
        SendNotification ''test_results'' (DObject (Some ''third'')) ''2026-01-01T10:00:00.002Z'']
     EmailNotificationService_new)) \<and>
   map e_html (queue (the (run [Initialize True,
        SendNotification ''a/b'' (DObject (Some ''first'')) ''2026-01-01T10:00:00.000Z'',
        SendNotification ''bug_report'' (DObject (Some ''second'')) ''2026-01-01T10:00:00.001Z'',
        SendMailRejected 0, LogToFileRejected 0,
        SendNotification ''test_results'' (DObject (Some ''third'')) ''2026-01-01T10:00:00.002Z'']
     EmailNotificationService_new))) = [''second'', ''third''] \<and>
   step (SendMailResolved 0) (the (run [Initialize True,
        SendNotification ''a/b'' (DObject (Some ''first'')) ''2026-01-01T10:00:00.000Z'',
        SendNotification ''bug_report'' (DObject (Some ''second'')) ''2026-01-01T10:00:00.001Z'',
        SendMailRejected 0, LogToFileRejected 0,
        SendNotification ''test_results'' (DObject (Some ''third'')) ''2026-01-01T10:00:00.002Z'']
     EmailNotificationService_new)) = None"
  by code_simp

text \<open>
  Claim C4 at a failing input: two \<open>bug_report\<close> notifications without a transporter,
  whose writes read the same millisecond. Both messages are consumed, yet the fallback
  directory holds one file, the second message having replaced the first.
\<close>

theorem fallback_name_collision:
  "run [SendNotification ''bug_report'' (DObject (Some ''first'')) ''2026-01-01T10:00:00.000Z'',
        SendNotification ''bug_report'' (DObject (Some ''second'')) ''2026-01-01T10:00:00.000Z'',
        LogToFileDone 0 ''2026-01-01T10:00:00.001Z'' ''2026-01-01T10:00:00.001Z'',
        LogToFileDone 0 ''2026-01-01T10:00:00.001Z'' ''2026-01-01T10:00:00.001Z'']
     EmailNotificationService_new \<noteq> None \<and>
   length (consumed (io (the (run
       [SendNotification ''bug_report'' (DObject (Some ''first'')) ''2026-01-01T10:00:00.000Z'',
        SendNotification ''bug_report'' (DObject (Some ''second'')) ''2026-01-01T10:00:00.000Z'',
        LogToFileDone 0 ''2026-01-01T10:00:00.001Z'' ''2026-01-01T10:00:00.001Z'',
        LogToFileDone 0 ''2026-01-01T10:00:00.001Z'' ''2026-01-01T10:00:00.001Z'']
     EmailNotificationService_new)))) = 2 \<and>
   map fst (logdir (the (run
       [SendNotification ''bug_report'' (DObject (Some ''first'')) ''2026-01-01T10:00:00.000Z'',
        SendNotification ''bug_report'' (DObject (Some ''second'')) ''2026-01-01T10:00:00.000Z'',
        LogToFileDone 0 ''2026-01-01T10:00:00.001Z'' ''2026-01-01T10:00:00.001Z'',
        LogToFileDone 0 ''2026-01-01T10:00:00.001Z'' ''2026-01-01T10:00:00.001Z'']
     EmailNotificationService_new))) = [''2026-01-01T10-00-00.001Z_bug_report.json''] \<and>
   map (e_html \<circ> ff_email \<circ> snd) (logdir (the (run
       [SendNotification ''bug_report'' (DObject (Some ''first'')) ''2026-01-01T10:00:00.000Z'',
        SendNotification ''bug_report'' (DObject (Some ''second'')) ''2026-01-01T10:00:00.000Z'',
        LogToFileDone 0 ''2026-01-01T10:00:00.001Z'' ''2026-01-01T10:00:00.001Z'',
        LogToFileDone 0 ''2026-01-01T10:00:00.001Z'' ''2026-01-01T10:00:00.001Z'']
     EmailNotificationService_new))) = [''second'']"
  by code_simp

text \<open>
  Claim C9 at a failing input: \<open>constructor\<close> is not a key of \<open>TEMPLATES\<close>, yet the lookup
  finds the inherited \<open>Object.prototype.constructor\<close>, so the subject is rendered from a
  missing \<open>subject\<close> instead of the \<open>bug_report\<close> template; a name that nothing inherits
  falls back as claimed.
\<close>

theorem inherited_type_not_bug_report:
  "map_of TEMPLATES ''constructor'' = None \<and>
   e_subject (make_email ''constructor'' html now) = ''[Second Chance] undefined'' \<and>
   e_priority (make_email ''constructor'' html now) = JUndefined \<and>
   e_subject (make_email ''no_such_type'' html now) =
     ''[Second Chance] '' @ [CHR 0xF0, CHR 0x9F, CHR 0x90, CHR 0x9B] @ '' Bug Report Received''"
  by (simp add: make_email_def TEMPLATES_get_def TEMPLATES_def Object_prototype_names_def
      EMAIL_CONFIG_subject_prefix_def)


end
